theory Spec2Isabelle
  imports Complex_Main "HOL-Library.Char_ord" "HOL-Library.List_Lexorder"
begin

section \<open>Python values\<close>

text \<open>
  The adapters pass around the Python values that \<open>json\<close> decoding produces: \<open>None\<close>,
  booleans, integers, floats, strings, lists and dictionaries. A dictionary is an
  association list in insertion order (Python dictionaries keep it). A float is carried as
  its \<open>repr\<close> text, which is what \<open>str\<close> and \<open>json.dumps\<close> print; no function below does
  arithmetic on a float. Strings are lists of 8-bit characters, so the model covers the
  code points below 256. Rendered markdown is a Python \<open>str\<close>, that is \<open>JStr\<close>.
\<close>

datatype json =
    JNull
  | JBool bool
  | JInt int
  | JFloat string
  | JStr string
  | JList "json list"
  | JDict "(string \<times> json) list"

type_synonym pydict = "(string \<times> json) list"

text \<open>
  Exceptions, one constructor per class that a handler of the source tells apart; the
  string is \<open>str(e)\<close>. \<open>McpError\<close> also carries the JSON-RPC error code.
\<close>

datatype exn =
    McpError int string
  | ClientError string
  | JSONDecodeError string
  | TimeoutError string
  | ValueError string
  | KeyError string
  | TypeError string
  | AttributeError string
  | ValidationError string
  | TranscriptsDisabled string
  | VideoUnavailable string
  | NoTranscriptFound string
  | OtherException string

fun str_exn :: "exn \<Rightarrow> string" where
  "str_exn (McpError c m) = m"
| "str_exn (ClientError m) = m"
| "str_exn (JSONDecodeError m) = m"
| "str_exn (TimeoutError m) = m"
| "str_exn (ValueError m) = m"
| "str_exn (KeyError m) = m"
| "str_exn (TypeError m) = m"
| "str_exn (AttributeError m) = m"
| "str_exn (ValidationError m) = m"
| "str_exn (TranscriptsDisabled m) = m"
| "str_exn (VideoUnavailable m) = m"
| "str_exn (NoTranscriptFound m) = m"
| "str_exn (OtherException m) = m"

text \<open>The error codes of \<open>mcp.types\<close> (the JSON-RPC values).\<close>

definition METHOD_NOT_FOUND :: int where "METHOD_NOT_FOUND = - 32601"
definition INVALID_PARAMS :: int where "INVALID_PARAMS = - 32602"
definition INTERNAL_ERROR :: int where "INTERNAL_ERROR = - 32603"

subsection \<open>Strings\<close>

text \<open>\<open>sep.join(parts)\<close>.\<close>

fun join :: "string \<Rightarrow> string list \<Rightarrow> string" where
  "join sep [] = []"
| "join sep [x] = x"
| "join sep (x # y # ys) = x @ sep @ join sep (y # ys)"

fun str_nat :: "nat \<Rightarrow> string" where
  "str_nat n =
     (if n < 10 then [''0123456789'' ! n]
      else str_nat (n div 10) @ [''0123456789'' ! (n mod 10)])"

declare str_nat.simps [simp del]

definition str_int :: "int \<Rightarrow> string" where
  "str_int i = (if i < 0 then CHR ''-'' # str_nat (nat (- i)) else str_nat (nat i))"

definition str_bool :: "bool \<Rightarrow> string" where
  "str_bool b = (if b then ''True'' else ''False'')"

text \<open>\<open>str(x)\<close> of an \<open>Optional[bool]\<close> and of an \<open>Optional[str]\<close>, as an f-string prints them.\<close>

definition str_opt_bool :: "bool option \<Rightarrow> string" where
  "str_opt_bool b = (case b of None \<Rightarrow> ''None'' | Some v \<Rightarrow> str_bool v)"

definition str_opt_str :: "string option \<Rightarrow> string" where
  "str_opt_str s = (case s of None \<Rightarrow> ''None'' | Some v \<Rightarrow> v)"

text \<open>Truth value of optional arguments: \<open>if args.hl:\<close>, \<open>if args.raw_json:\<close>.\<close>

definition truthy_str :: "string option \<Rightarrow> bool" where
  "truthy_str s = (case s of None \<Rightarrow> False | Some v \<Rightarrow> v \<noteq> [])"

definition truthy_bool :: "bool option \<Rightarrow> bool" where
  "truthy_bool b = (case b of None \<Rightarrow> False | Some v \<Rightarrow> v)"

definition hex_digit :: "nat \<Rightarrow> char" where
  "hex_digit n = ''0123456789abcdef'' ! n"

text \<open>
  \<open>repr\<close> of a string: single quotes unless the string has a single quote and no double
  quote; backslash, the quote, tab, newline and carriage return are escaped, a character
  that is not printable is written \<open>\xhh\<close>.
\<close>

definition printable :: "char \<Rightarrow> bool" where
  "printable c =
     (let n = (of_char c :: nat)
      in (32 \<le> n \<and> n < 127) \<or> (161 \<le> n \<and> n \<noteq> 173))"

definition repr_char :: "char \<Rightarrow> char \<Rightarrow> string" where
  "repr_char quote c =
     (if c = quote \<or> c = CHR 0x5C then [CHR 0x5C, c]
      else if c = CHR 0x09 then [CHR 0x5C, CHR ''t'']
      else if c = CHR 0x0A then [CHR 0x5C, CHR ''n'']
      else if c = CHR 0x0D then [CHR 0x5C, CHR ''r'']
      else if printable c then [c]
      else [CHR 0x5C, CHR ''x'', hex_digit (of_char c div 16), hex_digit (of_char c mod 16)])"

definition repr_str :: "string \<Rightarrow> string" where
  "repr_str s =
     (let quote = (if CHR 0x27 \<in> set s \<and> CHR 0x22 \<notin> set s then CHR 0x22 else CHR 0x27)
      in [quote] @ concat (map (repr_char quote) s) @ [quote])"

text \<open>\<open>repr(v)\<close> and \<open>str(v)\<close> of a decoded JSON value; they differ on strings only.\<close>

fun py_repr :: "json \<Rightarrow> string" where
  "py_repr JNull = ''None''"
| "py_repr (JBool b) = str_bool b"
| "py_repr (JInt i) = str_int i"
| "py_repr (JFloat r) = r"
| "py_repr (JStr s) = repr_str s"
| "py_repr (JList xs) = ''['' @ join '', '' (map py_repr xs) @ '']''"
| "py_repr (JDict d) =
     ''{'' @ join '', '' (map (\<lambda>(k, v). repr_str k @ '': '' @ py_repr v) d) @ ''}''"

fun py_str :: "json \<Rightarrow> string" where
  "py_str (JStr s) = s"
| "py_str v = py_repr v"

text \<open>The name of a value's class, as error messages print it.\<close>

fun type_name :: "json \<Rightarrow> string" where
  "type_name JNull = ''NoneType''"
| "type_name (JBool b) = ''bool''"
| "type_name (JInt i) = ''int''"
| "type_name (JFloat r) = ''float''"
| "type_name (JStr s) = ''str''"
| "type_name (JList xs) = ''list''"
| "type_name (JDict d) = ''dict''"

subsection \<open>Dictionaries\<close>

text \<open>\<open>d[k] = v\<close>: an existing key keeps its position, a new key goes last.\<close>

fun dict_set :: "pydict \<Rightarrow> string \<Rightarrow> json \<Rightarrow> pydict" where
  "dict_set [] k v = [(k, v)]"
| "dict_set ((k', v') # d) k v = (if k' = k then (k, v) # d else (k', v') # dict_set d k v)"

text \<open>\<open>d.get(k, default)\<close>.\<close>

definition dict_get :: "pydict \<Rightarrow> string \<Rightarrow> json \<Rightarrow> json" where
  "dict_get d k dflt = (case map_of d k of None \<Rightarrow> dflt | Some v \<Rightarrow> v)"

fun dict_items :: "json \<Rightarrow> pydict" where
  "dict_items (JDict d) = d"
| "dict_items v = []"

subsection \<open>\<open>json.dumps(params, sort_keys=True)\<close>\<close>

text \<open>
  The defaults of \<open>json.dumps\<close>: separators \<open>", "\<close> and \<open>": "\<close>, \<open>ensure_ascii\<close>, so every
  character outside space..tilde is escaped. With \<open>sort_keys\<close> the items of every
  dictionary are written in the order of their keys.
\<close>

definition json_escape_char :: "char \<Rightarrow> string" where
  "json_escape_char c =
     (if c = CHR 0x22 then [CHR 0x5C, CHR 0x22]
      else if c = CHR 0x5C then [CHR 0x5C, CHR 0x5C]
      else if c = CHR 0x0A then [CHR 0x5C, CHR ''n'']
      else if c = CHR 0x0D then [CHR 0x5C, CHR ''r'']
      else if c = CHR 0x09 then [CHR 0x5C, CHR ''t'']
      else if c = CHR 0x08 then [CHR 0x5C, CHR ''b'']
      else if c = CHR 0x0C then [CHR 0x5C, CHR ''f'']
      else if 32 \<le> (of_char c :: nat) \<and> (of_char c :: nat) < 127 then [c]
      else [CHR 0x5C, CHR ''u'', CHR ''0'', CHR ''0'',
            hex_digit (of_char c div 16), hex_digit (of_char c mod 16)])"

definition json_string :: "string \<Rightarrow> string" where
  "json_string s = [CHR 0x22] @ concat (map json_escape_char s) @ [CHR 0x22]"

definition json_float :: "string \<Rightarrow> string" where
  "json_float r =
     (if r = ''nan'' then ''NaN'' else if r = ''inf'' then ''Infinity''
      else if r = ''-inf'' then ''-Infinity'' else r)"

fun json_dumps_sorted :: "json \<Rightarrow> string" where
  "json_dumps_sorted JNull = ''null''"
| "json_dumps_sorted (JBool b) = (if b then ''true'' else ''false'')"
| "json_dumps_sorted (JInt i) = str_int i"
| "json_dumps_sorted (JFloat r) = json_float r"
| "json_dumps_sorted (JStr s) = json_string s"
| "json_dumps_sorted (JList xs) = ''['' @ join '', '' (map json_dumps_sorted xs) @ '']''"
| "json_dumps_sorted (JDict d) =
     ''{'' @ join '', '' (map (\<lambda>(k, v). json_string k @ '': '' @ json_dumps_sorted v)
                             (sort_key fst d)) @ ''}''"

section \<open>Clean mode: \<open>clean_json_dict\<close>\<close>

text \<open>
  The test that every variant applies to a value before it decides to keep it:
  \<open>v is not None and v != [] and v != {} and v != ""\<close>.
\<close>

definition is_kept :: "json \<Rightarrow> bool" where
  "is_kept v = (v \<noteq> JNull \<and> v \<noteq> JList [] \<and> v \<noteq> JDict [] \<and> v \<noteq> JStr [])"

text \<open>
  \<open>clean_json_dict\<close> of \<open>serpapi_google_maps.py\<close> (the same text is in the Finance and
  News adapters): the test is on the value as it is in the input, the recursion is on the
  values that passed; a list loses its \<open>None\<close> elements only.
\<close>

fun clean_json_dict_maps :: "json \<Rightarrow> json" where
  "clean_json_dict_maps (JDict d) =
     JDict (map (\<lambda>(k, v). (k, clean_json_dict_maps v)) (filter (\<lambda>(k, v). is_kept v) d))"
| "clean_json_dict_maps (JList xs) =
     JList (map clean_json_dict_maps (filter (\<lambda>i. i \<noteq> JNull) xs))"
| "clean_json_dict_maps v = v"

text \<open>
  \<open>clean_json_dict\<close> of \<open>serpapi_google_search.py\<close> (also Images and Trends): a list loses
  every element that fails the test, and a list with nothing left becomes \<open>None\<close>.
\<close>

fun clean_json_dict_search :: "json \<Rightarrow> json" where
  "clean_json_dict_search (JDict d) =
     JDict (map (\<lambda>(k, v). (k, clean_json_dict_search v)) (filter (\<lambda>(k, v). is_kept v) d))"
| "clean_json_dict_search (JList xs) =
     (let cleaned_list = map clean_json_dict_search (filter is_kept xs)
      in if cleaned_list \<noteq> [] then JList cleaned_list else JNull)"
| "clean_json_dict_search v = v"

text \<open>
  \<open>clean_json_dict\<close> of \<open>serpapi_google_scholar.py\<close>: only \<open>None\<close> and empty containers
  fail the test, \<open>v is not None and (not isinstance(v, (dict, list)) or v)\<close>.
\<close>

definition is_kept_scholar :: "json \<Rightarrow> bool" where
  "is_kept_scholar v = (v \<noteq> JNull \<and> v \<noteq> JList [] \<and> v \<noteq> JDict [])"

fun clean_json_dict_scholar :: "json \<Rightarrow> json" where
  "clean_json_dict_scholar (JDict d) =
     JDict (map (\<lambda>(k, v). (k, clean_json_dict_scholar v))
                (filter (\<lambda>(k, v). is_kept_scholar v) d))"
| "clean_json_dict_scholar (JList xs) =
     JList (map clean_json_dict_scholar (filter is_kept_scholar xs))"
| "clean_json_dict_scholar v = v"

text \<open>
  The reference pruning in the words of the specification: rebuild the value, clean the
  children first, then drop from a map every key whose cleaned value is \<open>null\<close>, \<open>""\<close>,
  \<open>[]\<close> or \<open>{}\<close>; drop from a list the \<open>null\<close> elements only.
\<close>

fun prune_spec :: "json \<Rightarrow> json" where
  "prune_spec (JDict d) =
     JDict (filter (\<lambda>(k, v). is_kept v) (map (\<lambda>(k, v). (k, prune_spec v)) d))"
| "prune_spec (JList xs) = JList (map prune_spec (filter (\<lambda>i. i \<noteq> JNull) xs))"
| "prune_spec v = v"

text \<open>No key is mapped to \<open>null\<close>, \<open>""\<close>, \<open>[]\<close> or \<open>{}\<close>, at any depth.\<close>

fun pruned :: "json \<Rightarrow> bool" where
  "pruned (JDict d) = list_all (\<lambda>(k, v). is_kept v \<and> pruned v) d"
| "pruned (JList xs) = list_all pruned xs"
| "pruned v = True"

text \<open>No key is mapped to \<open>null\<close> or \<open>""\<close> and no list has a \<open>null\<close> element, at any depth.\<close>

fun no_null_or_blank :: "json \<Rightarrow> bool" where
  "no_null_or_blank (JDict d) =
     list_all (\<lambda>(k, v). v \<noteq> JNull \<and> v \<noteq> JStr [] \<and> no_null_or_blank v) d"
| "no_null_or_blank (JList xs) = list_all (\<lambda>v. v \<noteq> JNull \<and> no_null_or_blank v) xs"
| "no_null_or_blank v = True"

section \<open>The YouTube transcript adapter\<close>

subsection \<open>\<open>urllib.parse\<close>\<close>

text \<open>
  \<open>urlparse\<close> and \<open>parse_qs\<close> belong to the Python library; \<open>extract_video_id\<close> reads the
  host name, the path and the query of the result. The model follows \<open>urlsplit\<close> of
  CPython 3.12 step by step. Three helpers of the library are parameters, since they need
  tables the model does not have: the validation of a bracketed host
  (\<open>_check_bracketed_host\<close>), the NFKC check of a netloc that is not ASCII
  (\<open>_checknetloc\<close>), and the decoding of the percent escapes of a string that has some
  (\<open>unquote\<close>). The first two answer with the exception they raise, if any.
\<close>

record urllib =
  check_bracketed_host :: "string \<Rightarrow> exn option"
  checknetloc :: "string \<Rightarrow> exn option"
  unquote_escapes :: "string \<Rightarrow> string"

definition scheme_chars :: string where
  "scheme_chars = ''abcdefghijklmnopqrstuvwxyzABCDEFGHIJKLMNOPQRSTUVWXYZ0123456789+-.''"

definition ascii_letters :: string where
  "ascii_letters = ''abcdefghijklmnopqrstuvwxyzABCDEFGHIJKLMNOPQRSTUVWXYZ''"

definition uses_params :: "string list" where
  "uses_params = ['''', ''ftp'', ''hdl'', ''prospero'', ''http'', ''imap'', ''https'', ''shttp'',
                  ''rtsp'', ''rtspu'', ''sip'', ''sips'', ''mms'', ''sftp'', ''tel'']"

text \<open>\<open>c.lower()\<close> on the code points below 256.\<close>

definition lower_char :: "char \<Rightarrow> char" where
  "lower_char c =
     (let n = (of_char c :: nat)
      in if (65 \<le> n \<and> n \<le> 90) \<or> (192 \<le> n \<and> n \<le> 222 \<and> n \<noteq> 215)
         then char_of (n + 32) else c)"

definition is_ascii :: "string \<Rightarrow> bool" where
  "is_ascii s = list_all (\<lambda>c. (of_char c :: nat) < 128) s"

text \<open>\<open>s.partition(c)\<close>, the part of \<open>s\<close> after the last \<open>c\<close> (\<open>s.rpartition(c)[2]\<close>), \<open>s.split(c)\<close>.\<close>

definition before :: "char \<Rightarrow> string \<Rightarrow> string" where
  "before c s = takeWhile (\<lambda>x. x \<noteq> c) s"

definition after :: "char \<Rightarrow> string \<Rightarrow> string" where
  "after c s = drop 1 (dropWhile (\<lambda>x. x \<noteq> c) s)"

definition after_last :: "char \<Rightarrow> string \<Rightarrow> string" where
  "after_last c s = rev (takeWhile (\<lambda>x. x \<noteq> c) (rev s))"

fun split_char :: "char \<Rightarrow> string \<Rightarrow> string list" where
  "split_char c [] = [[]]"
| "split_char c (x # xs) =
     (if x = c then [] # split_char c xs
      else (case split_char c xs of [] \<Rightarrow> [[x]] | p # ps \<Rightarrow> (x # p) # ps))"

text \<open>\<open>s.replace(a, b)\<close> for single characters.\<close>

definition replace_char :: "char \<Rightarrow> char \<Rightarrow> string \<Rightarrow> string" where
  "replace_char a b s = map (\<lambda>c. if c = a then b else c) s"

record SplitResult =
  scheme :: string
  netloc :: string
  path :: string
  query :: string
  fragment :: string

definition urlsplit :: "urllib \<Rightarrow> string \<Rightarrow> exn + SplitResult" where
  "urlsplit lib url0 =
     (let url1 = dropWhile (\<lambda>c. (of_char c :: nat) \<le> 32) url0;
          url2 = filter (\<lambda>c. c \<noteq> CHR 0x09 \<and> c \<noteq> CHR 0x0D \<and> c \<noteq> CHR 0x0A) url1;
          pre = before CHR '':'' url2;
          has_scheme = (CHR '':'' \<in> set url2 \<and> pre \<noteq> [] \<and> hd pre \<in> set ascii_letters
                        \<and> list_all (\<lambda>c. c \<in> set scheme_chars) pre);
          sch = (if has_scheme then map lower_char pre else []);
          url3 = (if has_scheme then after CHR '':'' url2 else url2);
          has_netloc = (take 2 url3 = ''//'');
          nl = (if has_netloc then takeWhile (\<lambda>c. c \<notin> set ''/?#'') (drop 2 url3) else []);
          url4 = (if has_netloc then dropWhile (\<lambda>c. c \<notin> set ''/?#'') (drop 2 url3) else url3);
          frag = (if CHR ''#'' \<in> set url4 then after CHR ''#'' url4 else []);
          url5 = (if CHR ''#'' \<in> set url4 then before CHR ''#'' url4 else url4);
          qry = (if CHR ''?'' \<in> set url5 then after CHR ''?'' url5 else []);
          url6 = (if CHR ''?'' \<in> set url5 then before CHR ''?'' url5 else url5)
      in if has_netloc \<and> ((CHR ''['' \<in> set nl \<and> CHR '']'' \<notin> set nl)
                          \<or> (CHR '']'' \<in> set nl \<and> CHR ''['' \<notin> set nl))
         then Inl (ValueError ''Invalid IPv6 URL'')
         else case (if has_netloc \<and> CHR ''['' \<in> set nl \<and> CHR '']'' \<in> set nl
                    then check_bracketed_host lib (before CHR '']'' (after CHR ''['' nl))
                    else None) of
           Some e \<Rightarrow> Inl e
         | None \<Rightarrow>
             (case (if nl = [] \<or> is_ascii nl then None else checknetloc lib nl) of
                Some e \<Rightarrow> Inl e
              | None \<Rightarrow> Inr \<lparr>scheme = sch, netloc = nl, path = url6, query = qry,
                              fragment = frag\<rparr>))"

text \<open>\<open>_splitparams\<close>, called when the URL has a semicolon: the path without the parameters
  of its last segment.\<close>

definition splitparams_path :: "string \<Rightarrow> string" where
  "splitparams_path url =
     (if CHR ''/'' \<in> set url
      then (let last_seg = after_last CHR ''/'' url
            in if CHR '';'' \<in> set last_seg
               then take (length url - length last_seg) url @ before CHR '';'' last_seg
               else url)
      else before CHR '';'' url)"

definition urlparse :: "urllib \<Rightarrow> string \<Rightarrow> exn + SplitResult" where
  "urlparse lib url =
     (case urlsplit lib url of
        Inl e \<Rightarrow> Inl e
      | Inr r \<Rightarrow>
          Inr (if scheme r \<in> set uses_params \<and> CHR '';'' \<in> set (path r)
               then r\<lparr>path := splitparams_path (path r)\<rparr> else r))"

text \<open>The \<open>hostname\<close> property of the result; \<open>None\<close> when the netloc has no host.\<close>

definition hostname :: "SplitResult \<Rightarrow> string option" where
  "hostname r =
     (let hostinfo = after_last CHR ''@'' (netloc r);
          host = (if CHR ''['' \<in> set hostinfo
                  then before CHR '']'' (after CHR ''['' hostinfo)
                  else before CHR '':'' hostinfo)
      in if host = [] then None
         else Some (map lower_char (before CHR ''%'' host)
                    @ dropWhile (\<lambda>c. c \<noteq> CHR ''%'') host))"

definition unquote :: "urllib \<Rightarrow> string \<Rightarrow> string" where
  "unquote lib s = (if CHR ''%'' \<notin> set s then s else unquote_escapes lib s)"

text \<open>\<open>parse_qsl\<close> with its defaults: blank values are dropped, fields are split at \<open>&\<close>.\<close>

definition parse_qsl :: "urllib \<Rightarrow> string \<Rightarrow> (string \<times> string) list" where
  "parse_qsl lib qs =
     (if qs = [] then []
      else concat (map (\<lambda>name_value.
             if name_value = [] then []
             else if CHR ''='' \<notin> set name_value then []
             else if after CHR ''='' name_value = [] then []
             else [(unquote lib (replace_char CHR ''+'' CHR '' '' (before CHR ''='' name_value)),
                    unquote lib (replace_char CHR ''+'' CHR '' '' (after CHR ''='' name_value)))])
           (split_char CHR ''&'' qs)))"

text \<open>\<open>parse_qs(query)[name][0]\<close>: the first value of the field, or \<open>KeyError\<close>.\<close>

definition parse_qs_first :: "urllib \<Rightarrow> string \<Rightarrow> string \<Rightarrow> exn + string" where
  "parse_qs_first lib qs name =
     (case map_of (parse_qsl lib qs) name of
        None \<Rightarrow> Inl (KeyError (repr_str name))
      | Some v \<Rightarrow> Inr v)"

subsection \<open>\<open>extract_video_id\<close>\<close>

text \<open>\<open>s.startswith(p)\<close>.\<close>

definition startswith :: "string \<Rightarrow> string \<Rightarrow> bool" where
  "startswith s p = (take (length p) s = p)"

definition extract_video_id :: "urllib \<Rightarrow> string \<Rightarrow> exn + string" where
  "extract_video_id lib url =
     (if length url \<le> 11 \<and> CHR ''/'' \<notin> set url \<and> CHR ''.'' \<notin> set url then Inr url
      else case urlparse lib url of
        Inl e \<Rightarrow> Inl e
      | Inr parsed \<Rightarrow>
          if hostname parsed \<in> {Some ''youtu.be'', Some ''www.youtu.be''}
          then Inr (drop 1 (path parsed))
          else if hostname parsed \<in> {Some ''youtube.com'', Some ''www.youtube.com''}
                  \<and> path parsed = ''/watch''
          then parse_qs_first lib (query parsed) ''v''
          else if hostname parsed \<in> {Some ''youtube.com'', Some ''www.youtube.com''}
                  \<and> startswith (path parsed) ''/v/''
          then Inr (drop 3 (path parsed))
          else if hostname parsed \<in> {Some ''youtube.com'', Some ''www.youtube.com''}
                  \<and> startswith (path parsed) ''/shorts/''
          then Inr (drop 8 (path parsed))
          else if hostname parsed \<in> {Some ''youtube.com'', Some ''www.youtube.com''}
                  \<and> startswith (path parsed) ''/embed/''
          then Inr (drop 7 (path parsed))
          else Inl (ValueError ''Could not extract video ID from URL''))"

subsection \<open>\<open>get_transcript\<close>\<close>

record YouTubeTranscriptArgs =
  video_url :: string
  with_timestamps :: "bool option"
  language :: "string option"
  preserve_formatting :: "bool option"
  cookies_path :: "string option"
  proxy :: "string option"
  yt_raw_json :: "bool option"
  yt_readable_json :: "bool option"
  text_transcript :: "bool option"

record CachedTranscript =
  ct_video_id :: string
  ct_language :: "string option"
  ct_response :: json

text \<open>
  The transcript library is the upstream of this adapter, a parameter of the model.
  \<open>list_transcripts(video_id, proxies, cookies)\<close> raises or returns a transcript list; the
  list answers \<open>find_transcript\<close> and can be iterated; a transcript is given by what its
  \<open>fetch()\<close> does.
\<close>

record TranscriptList =
  find_transcript :: "string option list \<Rightarrow> exn + (exn + json)"
  transcripts :: "(exn + json) list"

type_synonym transcript_api =
  "string \<Rightarrow> pydict option \<Rightarrow> string option \<Rightarrow> exn + TranscriptList"

text \<open>\<open>clean_json_dict\<close> of \<open>youtube_transcript.py\<close>: as in Google Search, but an emptied list
  stays a list.\<close>

fun clean_json_dict_transcript :: "json \<Rightarrow> json" where
  "clean_json_dict_transcript (JDict d) =
     JDict (map (\<lambda>(k, v). (k, clean_json_dict_transcript v)) (filter (\<lambda>(k, v). is_kept v) d))"
| "clean_json_dict_transcript (JList xs) =
     JList (map clean_json_dict_transcript (filter is_kept xs))"
| "clean_json_dict_transcript v = v"

text \<open>Iterating a value (\<open>for entry in transcript_data\<close>) and subscripting it with a string
  (\<open>entry['text']\<close>).\<close>

fun iterate :: "json \<Rightarrow> exn + json list" where
  "iterate (JList xs) = Inr xs"
| "iterate (JDict d) = Inr (map (\<lambda>(k, v). JStr k) d)"
| "iterate (JStr s) = Inr (map (\<lambda>c. JStr [c]) s)"
| "iterate v = Inl (TypeError ([CHR 0x27] @ type_name v @ [CHR 0x27] @ '' object is not iterable''))"

fun subscript :: "json \<Rightarrow> string \<Rightarrow> exn + json" where
  "subscript (JDict d) k =
     (case map_of d k of None \<Rightarrow> Inl (KeyError (repr_str k)) | Some v \<Rightarrow> Inr v)"
| "subscript (JList xs) k =
     Inl (TypeError ''list indices must be integers or slices, not str'')"
| "subscript (JStr s) k =
     Inl (TypeError (''string indices must be integers, not '' @ repr_str ''str''))"
| "subscript v k =
     Inl (TypeError ([CHR 0x27] @ type_name v @ [CHR 0x27] @ '' object is not subscriptable''))"

text \<open>Running a step over a list, stopping at the first exception.\<close>

fun map_exn :: "('a \<Rightarrow> exn + 'b) \<Rightarrow> 'a list \<Rightarrow> exn + 'b list" where
  "map_exn f [] = Inr []"
| "map_exn f (x # xs) =
     (case f x of
        Inl e \<Rightarrow> Inl e
      | Inr y \<Rightarrow> (case map_exn f xs of Inl e \<Rightarrow> Inl e | Inr ys \<Rightarrow> Inr (y # ys)))"

text \<open>\<open>sep.join(items)\<close> on values: every item must be a \<open>str\<close>.\<close>

fun str_items :: "nat \<Rightarrow> json list \<Rightarrow> exn + string list" where
  "str_items i [] = Inr []"
| "str_items i (JStr s # vs) =
     (case str_items (Suc i) vs of Inl e \<Rightarrow> Inl e | Inr ss \<Rightarrow> Inr (s # ss))"
| "str_items i (v # vs) =
     Inl (TypeError (''sequence item '' @ str_nat i @ '': expected str instance, ''
                     @ type_name v @ '' found''))"

definition join_values :: "string \<Rightarrow> json list \<Rightarrow> exn + string" where
  "join_values sep vs = (case str_items 0 vs of Inl e \<Rightarrow> Inl e | Inr ss \<Rightarrow> Inr (join sep ss))"

text \<open>\<open>sep.join(entry['text'] for entry in transcript_data)\<close>.\<close>

definition join_texts :: "string \<Rightarrow> json \<Rightarrow> exn + string" where
  "join_texts sep transcript_data =
     (case iterate transcript_data of
        Inl e \<Rightarrow> Inl e
      | Inr entries \<Rightarrow>
          (case map_exn (\<lambda>entry. subscript entry ''text'') entries of
             Inl e \<Rightarrow> Inl e
           | Inr texts \<Rightarrow> join_values sep texts))"

definition format_transcript_without_timestamps :: "json \<Rightarrow> exn + string" where
  "format_transcript_without_timestamps transcript_data = join_texts [CHR 0x0A] transcript_data"

text \<open>
  \<open>format_timestamp\<close> does floating-point arithmetic on the start time of an entry; it is
  a parameter, from the value of \<open>entry['start']\<close> to the bracketed time.
\<close>

definition format_transcript_with_timestamps ::
    "(json \<Rightarrow> exn + string) \<Rightarrow> json \<Rightarrow> exn + string" where
  "format_transcript_with_timestamps format_timestamp transcript_data =
     (case iterate transcript_data of
        Inl e \<Rightarrow> Inl e
      | Inr entries \<Rightarrow>
          (case map_exn (\<lambda>entry.
                  case subscript entry ''start'' of
                    Inl e \<Rightarrow> Inl e
                  | Inr start \<Rightarrow>
                      (case format_timestamp start of
                         Inl e \<Rightarrow> Inl e
                       | Inr stamp \<Rightarrow>
                           (case subscript entry ''text'' of
                              Inl e \<Rightarrow> Inl e
                            | Inr text \<Rightarrow> Inr (stamp @ '' '' @ py_str text)))) entries of
             Inl e \<Rightarrow> Inl e
           | Inr lines \<Rightarrow> Inr (join [CHR 0x0A] lines)))"

text \<open>The cache key of a transcript request.\<close>

definition transcript_cache_key :: "string \<Rightarrow> YouTubeTranscriptArgs \<Rightarrow> string" where
  "transcript_cache_key video_id args =
     video_id @ ''_'' @ str_opt_str (language args) @ ''_'' @ str_opt_bool (with_timestamps args)
     @ ''_'' @ str_opt_bool (preserve_formatting args) @ ''_'' @ str_opt_bool (yt_raw_json args)
     @ ''_'' @ str_opt_bool (yt_readable_json args) @ ''_'' @ str_opt_bool (text_transcript args)"

text \<open>The handlers of \<open>get_transcript\<close>: every exception becomes a string for the user.
  \<open>JSONDecodeError\<close> and the validation error of pydantic are subclasses of \<open>ValueError\<close>.\<close>

fun transcript_error :: "YouTubeTranscriptArgs \<Rightarrow> exn \<Rightarrow> string" where
  "transcript_error args (TranscriptsDisabled m) = ''Error: Transcripts are disabled for this video''"
| "transcript_error args (VideoUnavailable m) =
     ''Error: Video '' @ video_url args @ '' is unavailable''"
| "transcript_error args (NoTranscriptFound m) =
     ''Error: No transcript found for video '' @ video_url args"
| "transcript_error args e = ''Error: '' @ str_exn e"

text \<open>The end of the \<open>try\<close> block, after \<open>transcript.fetch()\<close>: format and store.\<close>

definition fetch_and_format ::
    "(json \<Rightarrow> exn + string) \<Rightarrow> YouTubeTranscriptArgs \<Rightarrow> string \<Rightarrow> string
      \<Rightarrow> (string \<rightharpoonup> CachedTranscript) \<Rightarrow> exn + json
      \<Rightarrow> exn + json \<times> (string \<rightharpoonup> CachedTranscript)" where
  "fetch_and_format format_timestamp args video_id cache_key cache fetched =
     (let store = (\<lambda>response.
            Inr (response, cache(cache_key \<mapsto>
                   \<lparr>ct_video_id = video_id, ct_language = language args, ct_response = response\<rparr>)))
      in case fetched of
        Inl e \<Rightarrow> Inl e
      | Inr transcript_data \<Rightarrow>
          if truthy_bool (yt_raw_json args) then store transcript_data
          else if truthy_bool (yt_readable_json args) then
            (case (if truthy_bool (with_timestamps args)
                   then format_transcript_with_timestamps format_timestamp transcript_data
                   else format_transcript_without_timestamps transcript_data) of
               Inl e \<Rightarrow> Inl e
             | Inr formatted_transcript \<Rightarrow> store (JStr formatted_transcript))
          else if truthy_bool (text_transcript args) then
            (case join_texts '' '' transcript_data of
               Inl e \<Rightarrow> Inl e
             | Inr transcript_text \<Rightarrow> store (JStr transcript_text))
          else store (clean_json_dict_transcript transcript_data))"

text \<open>The \<open>try\<close> block of \<open>get_transcript\<close>.\<close>

definition get_transcript_body ::
    "urllib \<Rightarrow> transcript_api \<Rightarrow> (json \<Rightarrow> exn + string) \<Rightarrow> YouTubeTranscriptArgs
      \<Rightarrow> (string \<rightharpoonup> CachedTranscript) \<Rightarrow> exn + json \<times> (string \<rightharpoonup> CachedTranscript)" where
  "get_transcript_body lib list_transcripts format_timestamp args cache =
     (case extract_video_id lib (video_url args) of
        Inl e \<Rightarrow> Inl e
      | Inr video_id \<Rightarrow>
          (let cache_key = transcript_cache_key video_id args
           in case cache cache_key of
             Some cached \<Rightarrow> Inr (ct_response cached, cache)
           | None \<Rightarrow>
               (let proxies = (if truthy_str (proxy args)
                               then Some [(''https'', JStr (the (proxy args)))] else None)
                in case list_transcripts video_id proxies (cookies_path args) of
                  Inl e \<Rightarrow> Inl e
                | Inr available_transcripts \<Rightarrow>
                    (case find_transcript available_transcripts [language args] of
                       Inl (NoTranscriptFound m) \<Rightarrow>
                         (case transcripts available_transcripts of
                            [] \<Rightarrow> Inr (JStr (''No transcript found for video '' @ video_id), cache)
                          | t # ts \<Rightarrow>
                              fetch_and_format format_timestamp args video_id cache_key cache t)
                     | Inl e \<Rightarrow> Inl e
                     | Inr transcript \<Rightarrow>
                         fetch_and_format format_timestamp args video_id cache_key cache
                           transcript))))"

definition get_transcript ::
    "urllib \<Rightarrow> transcript_api \<Rightarrow> (json \<Rightarrow> exn + string) \<Rightarrow> YouTubeTranscriptArgs
      \<Rightarrow> (string \<rightharpoonup> CachedTranscript) \<Rightarrow> json \<times> (string \<rightharpoonup> CachedTranscript)" where
  "get_transcript lib list_transcripts format_timestamp args cache =
     (case get_transcript_body lib list_transcripts format_timestamp args cache of
        Inl e \<Rightarrow> (JStr (transcript_error args e), cache)
      | Inr result \<Rightarrow> result)"

section \<open>What the HTTP adapters share\<close>

text \<open>
  The upstream is reached through \<open>aiohttp\<close>: \<open>session.get(url, params=params)\<close> raises or
  gives a response, of which the adapters read the status, the body text
  (\<open>await response.text()\<close>) and the decoded body (\<open>await response.json()\<close>); either read may
  raise.
\<close>

record http_response =
  resp_status :: int
  resp_text :: "exn + string"
  resp_json :: "exn + json"

text \<open>
  What an adapter takes from outside, gathered in one record: the HTTP client, the clock
  (\<open>asyncio.get_event_loop().time()\<close>, read once at the cache lookup and once more when an
  entry is stored), and the library functions that are not part of the repository:
  pydantic's validation of the tool arguments and of a response body
  (\<open>Model(**data)\<close>, which raises when the data does not fit the model), \<open>json.loads\<close> and
  \<open>json.dumps(value, indent=2)\<close>. \<open>render_rest\<close> stands for the sections of a markdown
  template that follow the part modelled here; it gives the lines they append, or raises.
\<close>

record ('args, 'model) env =
  http_get :: "string \<Rightarrow> pydict \<Rightarrow> exn + http_response"
  now :: real
  clock :: real
  validate_args :: "pydict \<Rightarrow> exn + 'args"
  validate_model :: "json \<Rightarrow> exn + 'model"
  render_rest :: "'model \<Rightarrow> exn + string list"
  json_loads :: "string \<Rightarrow> exn + json"
  dumps_indent :: "json \<Rightarrow> string"

text \<open>\<open>CachedSearch\<close> of the adapters that enforce a lifetime and of Google Search: the constructor stamps
  the entry with the clock.\<close>

record CachedSearch =
  cs_query :: string
  cs_response :: json
  cs_timestamp :: real

text \<open>
  The state of a server object: the secret key, the cache, and the list of the requests
  sent upstream so far, which makes the one side effect of a search visible.
  \<open>self.cache_ttl = 3600\<close> is set by the constructor of each of these adapters.
\<close>

record server =
  api_key :: string
  cache :: "string \<rightharpoonup> CachedSearch"
  requests :: "(string \<times> pydict) list"

definition cache_ttl :: real where
  "cache_ttl = 3600"

definition send :: "server \<Rightarrow> string \<Rightarrow> pydict \<Rightarrow> server" where
  "send st url params = st\<lparr>requests := requests st @ [(url, params)]\<rparr>"

text \<open>\<open>self.cache[cache_key] = CachedSearch(cache_key, response)\<close>.\<close>

definition store :: "real \<Rightarrow> server \<Rightarrow> string \<Rightarrow> json \<Rightarrow> server" where
  "store t st cache_key response =
     st\<lparr>cache := (cache st)(cache_key \<mapsto>
           \<lparr>cs_query = cache_key, cs_response = response, cs_timestamp = t\<rparr>)\<rparr>"

text \<open>
  The cache check of the adapters that enforce the lifetime: the entry under the key is
  returned if \<open>now - cached.timestamp < self.cache_ttl\<close>; an older entry is left in place
  and skipped.
\<close>

definition cache_get :: "real \<Rightarrow> server \<Rightarrow> string \<Rightarrow> json option" where
  "cache_get t st cache_key =
     (case cache st cache_key of
        None \<Rightarrow> None
      | Some cached \<Rightarrow>
          if t - cs_timestamp cached < cache_ttl then Some (cs_response cached) else None)"

text \<open>\<open>if args.x is not None: params[k] = args.x\<close> and \<open>if args.x: params[k] = args.x\<close>.\<close>

definition set_str :: "pydict \<Rightarrow> string \<Rightarrow> string option \<Rightarrow> pydict" where
  "set_str d k v = (case v of None \<Rightarrow> d | Some s \<Rightarrow> dict_set d k (JStr s))"

definition set_int :: "pydict \<Rightarrow> string \<Rightarrow> int option \<Rightarrow> pydict" where
  "set_int d k v = (case v of None \<Rightarrow> d | Some i \<Rightarrow> dict_set d k (JInt i))"

definition set_truthy_str :: "pydict \<Rightarrow> string \<Rightarrow> string option \<Rightarrow> pydict" where
  "set_truthy_str d k v = (if truthy_str v then dict_set d k (JStr (the v)) else d)"

text \<open>\<open>if args.x: cache_key_parts.append(f"k={args.x}")\<close>.\<close>

definition key_part :: "string \<Rightarrow> string option \<Rightarrow> string list" where
  "key_part k v = (if truthy_str v then [k @ ''='' @ the v] else [])"

text \<open>The mode tag of the cache key: raw wins over readable, clean is the default.\<close>

definition format_tag :: "bool option \<Rightarrow> bool option \<Rightarrow> string" where
  "format_tag raw readable =
     (if truthy_bool raw then ''format=raw_json''
      else if truthy_bool readable then ''format=readable_json''
      else ''format=clean_json'')"

text \<open>\<open>k in v\<close> for a string \<open>k\<close>: a key of a dictionary, an element of a list, a substring
  of a string; any other value is not a container.\<close>

definition is_substring :: "string \<Rightarrow> string \<Rightarrow> bool" where
  "is_substring k s = list_ex (\<lambda>i. take (length k) (drop i s) = k) [0..<Suc (length s)]"

fun contains :: "json \<Rightarrow> string \<Rightarrow> exn + bool" where
  "contains (JDict d) k = Inr (k \<in> set (map fst d))"
| "contains (JList xs) k = Inr (JStr k \<in> set xs)"
| "contains (JStr s) k = Inr (is_substring k s)"
| "contains v k =
     Inl (TypeError (''argument of type '' @ [CHR 0x27] @ type_name v @ [CHR 0x27]
                     @ '' is not iterable''))"

text \<open>The synthetic response that the adapters build on a failure.\<close>

definition error_response :: "pydict \<Rightarrow> string \<Rightarrow> json" where
  "error_response params error_message =
     JDict [(''search_metadata'', JDict [(''status'', JStr ''Error'')]),
            (''search_parameters'', JDict params),
            (''error'', JStr error_message)]"

text \<open>The document that consists of the Error section alone.\<close>

definition error_document :: "string \<Rightarrow> string" where
  "error_document error_message = join [CHR 0x0A] [''# Error'', error_message, '''']"

text \<open>The output mode that the two flags select.\<close>

datatype output_mode = Raw | Readable | Clean

definition selected_mode :: "bool option \<Rightarrow> bool option \<Rightarrow> output_mode" where
  "selected_mode raw readable =
     (if truthy_bool raw then Raw else if truthy_bool readable then Readable else Clean)"

section \<open>The Google Finance adapter\<close>

record GoogleFinanceSearchArgs =
  fin_q :: string
  fin_hl :: "string option"
  fin_window :: "string option"
  fin_raw_json :: "bool option"
  fin_readable_json :: "bool option"

record StockPriceMovement =
  spm_percentage :: "string option"
  spm_value :: "string option"
  spm_movement :: "string option"

record StockInfo =
  si_stock :: "string option"
  si_link :: "string option"
  si_serpapi_link :: "string option"
  si_name :: "string option"
  si_price :: "string option"
  si_price_movement :: "StockPriceMovement option"
  si_currency :: "string option"

record GoogleFinanceResponseData =
  fr_search_metadata :: pydict
  fr_search_parameters :: pydict
  fr_markets :: "(string \<times> StockInfo list) list option"
  fr_stock_info :: "pydict option"
  fr_graph :: "pydict option"
  fr_news_results :: "pydict list option"
  fr_people_also_search_for :: "pydict list option"
  fr_error :: "string option"

type_synonym finance_env = "(GoogleFinanceSearchArgs, GoogleFinanceResponseData) env"

definition finance_cache_key :: "GoogleFinanceSearchArgs \<Rightarrow> string" where
  "finance_cache_key args =
     join ''&'' ([''q='' @ fin_q args] @ key_part ''hl'' (fin_hl args)
                 @ key_part ''window'' (fin_window args)
                 @ [format_tag (fin_raw_json args) (fin_readable_json args)])"

definition finance_params :: "string \<Rightarrow> GoogleFinanceSearchArgs \<Rightarrow> pydict" where
  "finance_params key args =
     set_truthy_str
       (set_truthy_str
          [(''engine'', JStr ''google_finance''), (''api_key'', JStr key), (''q'', JStr (fin_q args))]
          ''hl'' (fin_hl args))
       ''window'' (fin_window args)"

text \<open>
  \<open>format_google_finance_results\<close>: the error test comes first and returns; the sections
  for stock, graph, markets, news and related searches are \<open>render_rest\<close>.
\<close>

definition format_google_finance_results ::
    "(GoogleFinanceResponseData \<Rightarrow> exn + string list) \<Rightarrow> GoogleFinanceResponseData
      \<Rightarrow> exn + string" where
  "format_google_finance_results sections response =
     (if truthy_str (fr_error response)
      then Inr (join [CHR 0x0A] [''# Error'', the (fr_error response), ''''])
      else case sections response of
        Inl e \<Rightarrow> Inl e
      | Inr result_text \<Rightarrow> Inr (join [CHR 0x0A] result_text))"

text \<open>
  \<open>GoogleFinanceResponseData(**error_response)\<close>: on the synthetic response the outcome of
  the validation is known, the two dictionaries and the message fit their fields and every
  other field takes its default.
\<close>

definition finance_error_model :: "pydict \<Rightarrow> string \<Rightarrow> GoogleFinanceResponseData" where
  "finance_error_model params error_message =
     \<lparr>fr_search_metadata = [(''status'', JStr ''Error'')], fr_search_parameters = params,
      fr_markets = None, fr_stock_info = None, fr_graph = None, fr_news_results = None,
      fr_people_also_search_for = None, fr_error = Some error_message\<rparr>"

text \<open>Formatting the synthetic response in the requested mode.\<close>

definition finance_format_error ::
    "finance_env \<Rightarrow> GoogleFinanceSearchArgs \<Rightarrow> pydict \<Rightarrow> string \<Rightarrow> exn + json" where
  "finance_format_error env args params error_message =
     (if truthy_bool (fin_raw_json args) then Inr (error_response params error_message)
      else if truthy_bool (fin_readable_json args) then
        (case format_google_finance_results (render_rest env)
                (finance_error_model params error_message) of
           Inl e \<Rightarrow> Inl e
         | Inr s \<Rightarrow> Inr (JStr s))
      else Inr (clean_json_dict_maps (error_response params error_message)))"

text \<open>The \<open>try\<close> block of \<open>google_finance_search\<close> up to the formatted response.\<close>

definition finance_try ::
    "finance_env \<Rightarrow> GoogleFinanceSearchArgs \<Rightarrow> pydict \<Rightarrow> exn + json" where
  "finance_try env args params =
     (case http_get env ''https://serpapi.com/search'' params of
        Inl e \<Rightarrow> Inl e
      | Inr response \<Rightarrow>
          if resp_status response \<noteq> 200 then
            (case resp_text response of
               Inl e \<Rightarrow> Inl e
             | Inr error_text \<Rightarrow>
                 finance_format_error env args params
                   (''SerpAPI returned status code '' @ str_int (resp_status response)
                    @ '': '' @ error_text))
          else
            (case resp_json response of
               Inl e \<Rightarrow> Inl e
             | Inr raw_data \<Rightarrow>
                 if truthy_bool (fin_raw_json args) then Inr raw_data
                 else if truthy_bool (fin_readable_json args) then
                   (case validate_model env raw_data of
                      Inl e \<Rightarrow> Inl e
                    | Inr finance_response \<Rightarrow>
                        (case format_google_finance_results (render_rest env) finance_response of
                           Inl e \<Rightarrow> Inl e
                         | Inr s \<Rightarrow> Inr (JStr s)))
                 else Inr (clean_json_dict_maps raw_data)))"

text \<open>The two handlers: a timeout, and any other exception.\<close>

definition finance_handler ::
    "finance_env \<Rightarrow> GoogleFinanceSearchArgs \<Rightarrow> pydict \<Rightarrow> exn \<Rightarrow> exn + json" where
  "finance_handler env args params e =
     (case e of
        TimeoutError m \<Rightarrow> finance_format_error env args params ''SerpAPI request timed out''
      | _ \<Rightarrow> finance_format_error env args params (''An error occurred: '' @ str_exn e))"

definition google_finance_search ::
    "finance_env \<Rightarrow> GoogleFinanceSearchArgs \<Rightarrow> server \<Rightarrow> (exn + json) \<times> server" where
  "google_finance_search env args st =
     (let cache_key = finance_cache_key args
      in case cache_get (now env) st cache_key of
        Some response \<Rightarrow> (Inr response, st)
      | None \<Rightarrow>
          (let params = finance_params (api_key st) args;
               st1 = send st ''https://serpapi.com/search'' params;
               formatted = (case finance_try env args params of
                              Inl e \<Rightarrow> finance_handler env args params e
                            | Inr v \<Rightarrow> Inr v)
           in case formatted of
             Inl e \<Rightarrow> (Inl e, st1)
           | Inr formatted_response \<Rightarrow>
               (Inr formatted_response, store (clock env) st1 cache_key formatted_response)))"



section \<open>The Google Search adapter\<close>

record GoogleSearchArgs =
  gs_q :: string
  gs_num :: "int option"
  gs_start :: "int option"
  gs_location :: "string option"
  gs_gl :: "string option"
  gs_hl :: "string option"
  gs_device :: "string option"
  gs_safe :: "string option"
  gs_filter :: "string option"
  gs_time_period :: "string option"
  gs_exactTerms :: "string option"
  gs_include_domains :: "string list"
  gs_exclude_domains :: "string list"
  gs_raw_json :: "bool option"
  gs_readable_json :: "bool option"

record GoogleSearchResult =
  res_position :: int
  res_title :: string
  res_link :: string
  res_displayed_link :: string
  res_snippet :: "string option"
  res_snippet_highlighted_words :: "string list option"
  res_date :: "string option"
  res_favicon :: "string option"
  res_source_icon :: "string option"
  res_cached_page_link :: "string option"
  res_related_pages_link :: "string option"
  res_sitelinks :: "pydict option"

record SearchResponseData =
  sr_search_metadata :: pydict
  sr_search_parameters :: pydict
  sr_search_information :: "pydict option"
  sr_organic_results :: "GoogleSearchResult list"
  sr_related_searches :: "pydict list option"
  sr_pagination :: "pydict option"
  sr_serpapi_pagination :: "pydict option"
  sr_knowledge_graph :: "pydict option"
  sr_answer_box :: "pydict option"
  sr_related_questions :: "pydict list option"
  sr_shopping_results :: "pydict list option"
  sr_top_stories :: "pydict list option"
  sr_news_results :: "pydict list option"
  sr_local_results :: "pydict option"
  sr_local_map :: "pydict option"
  sr_images_results :: "pydict list option"
  sr_video_results :: "pydict list option"
  sr_twitter_results :: "pydict list option"
  sr_jobs_results :: "pydict option"
  sr_recipes_results :: "pydict list option"
  sr_ads :: "pydict option"
  sr_inline_videos :: "pydict list option"
  sr_inline_images :: "pydict list option"
  sr_inline_shopping :: "pydict list option"
  sr_inline_tweets :: "pydict list option"
  sr_error :: "string option"

text \<open>\<open>GoogleLocationsArgs\<close> declares \<open>q\<close> and \<open>limit\<close>; \<open>GoogleAccountArgs\<close> declares nothing.\<close>

record GoogleLocationsArgs =
  loc_q :: "string option"
  loc_limit :: "int option"

datatype GoogleAccountArgs = GoogleAccountArgs

text \<open>
  Reading an attribute of a pydantic object: a declared field gives its value, any other
  data attribute raises \<open>AttributeError\<close>, in the words of \<open>BaseModel.__getattr__\<close>. The
  models keep the default configuration, under which an argument that is not a declared
  field is ignored by the validation and never becomes an attribute.
\<close>

definition no_attribute :: "string \<Rightarrow> string \<Rightarrow> exn" where
  "no_attribute class_name item =
     AttributeError (repr_str class_name @ '' object has no attribute '' @ repr_str item)"

definition getattr_locations :: "GoogleLocationsArgs \<Rightarrow> string \<Rightarrow> exn + json" where
  "getattr_locations args item =
     (if item = ''q'' then Inr (case loc_q args of None \<Rightarrow> JNull | Some s \<Rightarrow> JStr s)
      else if item = ''limit'' then Inr (case loc_limit args of None \<Rightarrow> JNull | Some i \<Rightarrow> JInt i)
      else Inl (no_attribute ''GoogleLocationsArgs'' item))"

definition getattr_account :: "GoogleAccountArgs \<Rightarrow> string \<Rightarrow> exn + json" where
  "getattr_account args item = Inl (no_attribute ''GoogleAccountArgs'' item)"

record ('args, 'model) search_env = "('args, 'model) env" +
  validate_locations_args :: "pydict \<Rightarrow> exn + GoogleLocationsArgs"
  validate_account_args :: "pydict \<Rightarrow> exn + GoogleAccountArgs"

type_synonym google_env = "(GoogleSearchArgs, SearchResponseData) search_env"

text \<open>The query parameters of \<open>search\<close>; the secret key is one of them.\<close>

definition search_params :: "string \<Rightarrow> GoogleSearchArgs \<Rightarrow> pydict" where
  "search_params key args =
     (let p0 = [(''engine'', JStr ''google''), (''api_key'', JStr key), (''q'', JStr (gs_q args)),
                (''num'', (case gs_num args of None \<Rightarrow> JNull | Some n \<Rightarrow> JInt n))];
          p1 = set_int p0 ''start'' (gs_start args);
          p2 = set_str p1 ''location'' (gs_location args);
          p3 = set_str p2 ''gl'' (gs_gl args);
          p4 = set_str p3 ''hl'' (gs_hl args);
          p5 = set_str p4 ''device'' (gs_device args);
          p6 = set_str p5 ''safe'' (gs_safe args);
          p7 = set_str p6 ''filter'' (gs_filter args);
          p8 = set_str p7 ''tbs'' (map_option (\<lambda>t. ''qdr:'' @ t) (gs_time_period args));
          p9 = set_str p8 ''exactTerms'' (gs_exactTerms args);
          q1 = (if gs_include_domains args \<noteq> []
                then ''('' @ gs_q args @ '') ''
                     @ join '' OR '' (map (\<lambda>domain. ''site:'' @ domain) (gs_include_domains args))
                else gs_q args);
          q2 = (if gs_exclude_domains args \<noteq> []
                then q1 @ '' '' @ join '' '' (map (\<lambda>domain. ''-site:'' @ domain)
                                                  (gs_exclude_domains args))
                else q1)
      in dict_set p9 ''q'' (JStr q2))"

definition search_cache_key :: "string \<Rightarrow> GoogleSearchArgs \<Rightarrow> string" where
  "search_cache_key key args =
     json_dumps_sorted (JDict (search_params key args))
     @ (if truthy_bool (gs_raw_json args) then ''_raw''
        else if truthy_bool (gs_readable_json args) then ''_readable''
        else ''_clean'')"

text \<open>
  \<open>format_search_results\<close>: the search information comes first, then the error test,
  which returns; the sections from the organic results to the pagination are
  \<open>render_rest\<close>.
\<close>

definition search_information_lines :: "SearchResponseData \<Rightarrow> string list" where
  "search_information_lines response =
     (case sr_search_information response of
        None \<Rightarrow> []
      | Some info \<Rightarrow>
          if info = [] then []
          else [''# Search Information'']
               @ (case map_of info ''total_results'' of
                    None \<Rightarrow> [] | Some v \<Rightarrow> [''Total Results: '' @ py_str v])
               @ (case map_of info ''time_taken_displayed'' of
                    None \<Rightarrow> [] | Some v \<Rightarrow> [''Time Taken: '' @ py_str v])
               @ [''''])"

definition format_search_results ::
    "(SearchResponseData \<Rightarrow> exn + string list) \<Rightarrow> SearchResponseData \<Rightarrow> exn + string" where
  "format_search_results sections response =
     (let result = search_information_lines response
      in if truthy_str (sr_error response)
         then Inr (join [CHR 0x0A] (result @ [''# Error'', the (sr_error response), '''']))
         else case sections response of
           Inl e \<Rightarrow> Inl e
         | Inr rest \<Rightarrow> Inr (join [CHR 0x0A] (result @ rest)))"

text \<open>The three handlers of \<open>search\<close>; what they raise leaves the function.\<close>

definition search_handler :: "exn \<Rightarrow> exn" where
  "search_handler e =
     (case e of
        ClientError m \<Rightarrow> McpError INTERNAL_ERROR (''HTTP error during SerpAPI request: '' @ m)
      | JSONDecodeError m \<Rightarrow> McpError INTERNAL_ERROR (''Error decoding JSON from SerpAPI: '' @ m)
      | _ \<Rightarrow> McpError INTERNAL_ERROR (''Unexpected error during SerpAPI request: '' @ str_exn e))"

text \<open>The \<open>try\<close> block of \<open>search\<close>: the value to store and return, or the exception raised
  inside the block.\<close>

definition search_try ::
    "(GoogleSearchArgs, SearchResponseData, 'z) env_scheme \<Rightarrow> GoogleSearchArgs \<Rightarrow> pydict
      \<Rightarrow> exn + json" where
  "search_try env args params =
     (case http_get env ''https://serpapi.com'' params of
        Inl e \<Rightarrow> Inl e
      | Inr response \<Rightarrow>
          if resp_status response \<noteq> 200 then
            (case resp_text response of
               Inl e \<Rightarrow> Inl e
             | Inr error_text \<Rightarrow>
                 Inl (McpError INTERNAL_ERROR
                        (''SerpAPI returned an error: '' @ str_int (resp_status response)
                         @ '' - '' @ error_text)))
          else
            (case resp_json response of
               Inl e \<Rightarrow> Inl e
             | Inr json_response \<Rightarrow>
                 (case contains json_response ''error'' of
                    Inl e \<Rightarrow> Inl e
                  | Inr True \<Rightarrow>
                      (case subscript json_response ''error'' of
                         Inl e \<Rightarrow> Inl e
                       | Inr v \<Rightarrow>
                           Inl (McpError INTERNAL_ERROR
                                  (''SerpAPI returned an error: '' @ py_str v)))
                  | Inr False \<Rightarrow>
                      if truthy_bool (gs_raw_json args) then Inr json_response
                      else if truthy_bool (gs_readable_json args) then
                        (case validate_model env json_response of
                           Inl e \<Rightarrow> Inr json_response
                         | Inr response_data \<Rightarrow>
                             (case format_search_results (render_rest env) response_data of
                                Inl e \<Rightarrow> Inr json_response
                              | Inr formatted_response \<Rightarrow> Inr (JStr formatted_response)))
                      else Inr (clean_json_dict_search json_response))))"

text \<open>\<open>search\<close>: an entry under the key is returned whatever its age.\<close>

definition search ::
    "(GoogleSearchArgs, SearchResponseData, 'z) env_scheme \<Rightarrow> GoogleSearchArgs \<Rightarrow> server
      \<Rightarrow> (exn + json) \<times> server" where
  "search env args st =
     (let params = search_params (api_key st) args;
          cache_key = search_cache_key (api_key st) args
      in case cache st cache_key of
        Some cached \<Rightarrow> (Inr (cs_response cached), st)
      | None \<Rightarrow>
          (let st1 = send st ''https://serpapi.com'' params
           in case search_try env args params of
             Inl e \<Rightarrow> (Inl (search_handler e), st1)
           | Inr response \<Rightarrow> (Inr response, store (clock env) st1 cache_key response)))"

subsection \<open>Locations and account\<close>

text \<open>The truth value of a Python value.\<close>

fun truthy :: "json \<Rightarrow> bool" where
  "truthy JNull = False"
| "truthy (JBool b) = b"
| "truthy (JInt i) = (i \<noteq> 0)"
| "truthy (JFloat r) = (r \<noteq> ''0.0'' \<and> r \<noteq> ''-0.0'')"
| "truthy (JStr s) = (s \<noteq> [])"
| "truthy (JList xs) = (xs \<noteq> [])"
| "truthy (JDict d) = (d \<noteq> [])"

text \<open>\<open>v.get(k, default)\<close> on a value that may not be a dictionary.\<close>

fun py_get :: "json \<Rightarrow> string \<Rightarrow> json \<Rightarrow> exn + json" where
  "py_get (JDict d) k dflt = Inr (dict_get d k dflt)"
| "py_get v k dflt =
     Inl (AttributeError (repr_str (type_name v) @ '' object has no attribute '' @ repr_str ''get''))"

text \<open>The message of a response that is not 200: the \<open>error\<close> field of the body if the body
  is a JSON object, the body text otherwise.\<close>

definition upstream_error_message ::
    "('a, 'm, 'z) env_scheme \<Rightarrow> string \<Rightarrow> string" where
  "upstream_error_message env error_text =
     (case json_loads env error_text of
        Inl e \<Rightarrow> error_text
      | Inr error_json \<Rightarrow>
          (case py_get error_json ''error'' (JStr error_text) of
             Inl e \<Rightarrow> error_text
           | Inr v \<Rightarrow> py_str v))"

definition endpoint_handler :: "string \<Rightarrow> exn \<Rightarrow> exn" where
  "endpoint_handler what e =
     (case e of
        TimeoutError m \<Rightarrow> McpError INTERNAL_ERROR (''SerpAPI '' @ what @ '' request timed out'')
      | McpError c m \<Rightarrow> McpError c m
      | _ \<Rightarrow> McpError INTERNAL_ERROR (''SerpAPI '' @ what @ '' error: '' @ str_exn e))"

definition locations_try ::
    "('a, 'm, 'z) env_scheme \<Rightarrow> pydict \<Rightarrow> exn + json" where
  "locations_try env params =
     (case http_get env ''https://serpapi.com/locations.json'' params of
        Inl e \<Rightarrow> Inl e
      | Inr response \<Rightarrow>
          if resp_status response \<noteq> 200 then
            (case resp_text response of
               Inl e \<Rightarrow> Inl e
             | Inr error_text \<Rightarrow>
                 Inl (McpError INTERNAL_ERROR
                        (''SerpAPI locations error: '' @ upstream_error_message env error_text)))
          else
            (case resp_json response of
               Inl e \<Rightarrow> Inl e
             | Inr data \<Rightarrow>
                 (case data of
                    JDict d \<Rightarrow>
                      (case map_of d ''error'' of
                         Some v \<Rightarrow>
                           Inl (McpError INTERNAL_ERROR (''SerpAPI locations error: '' @ py_str v))
                       | None \<Rightarrow> Inr data)
                  | _ \<Rightarrow> Inr data)))"

definition locations ::
    "('a, 'm, 'z) env_scheme \<Rightarrow> GoogleLocationsArgs \<Rightarrow> server \<Rightarrow> (exn + json) \<times> server" where
  "locations env args st =
     (let p0 = [(''api_key'', JStr (api_key st))];
          p1 = set_truthy_str p0 ''q'' (loc_q args);
          params = (case loc_limit args of
                      None \<Rightarrow> p1
                    | Some n \<Rightarrow> if n \<noteq> 0 then dict_set p1 ''limit'' (JInt n) else p1);
          st1 = send st ''https://serpapi.com/locations.json'' params
      in case locations_try env params of
        Inl e \<Rightarrow> (Inl (endpoint_handler ''locations'' e), st1)
      | Inr data \<Rightarrow> (Inr data, st1))"

definition account_try ::
    "('a, 'm, 'z) env_scheme \<Rightarrow> pydict \<Rightarrow> exn + json" where
  "account_try env params =
     (case http_get env ''https://serpapi.com/account.json'' params of
        Inl e \<Rightarrow> Inl e
      | Inr response \<Rightarrow>
          if resp_status response \<noteq> 200 then
            (case resp_text response of
               Inl e \<Rightarrow> Inl e
             | Inr error_text \<Rightarrow>
                 Inl (McpError INTERNAL_ERROR
                        (''SerpAPI account error: '' @ upstream_error_message env error_text)))
          else
            (case resp_json response of
               Inl e \<Rightarrow> Inl e
             | Inr data \<Rightarrow>
                 (case contains data ''error'' of
                    Inl e \<Rightarrow> Inl e
                  | Inr True \<Rightarrow>
                      (case subscript data ''error'' of
                         Inl e \<Rightarrow> Inl e
                       | Inr v \<Rightarrow>
                           Inl (McpError INTERNAL_ERROR (''SerpAPI account error: '' @ py_str v)))
                  | Inr False \<Rightarrow> Inr data)))"

definition account ::
    "('a, 'm, 'z) env_scheme \<Rightarrow> GoogleAccountArgs \<Rightarrow> server \<Rightarrow> (exn + json) \<times> server" where
  "account env args st =
     (let params = [(''api_key'', JStr (api_key st))];
          st1 = send st ''https://serpapi.com/account.json'' params
      in case account_try env params of
        Inl e \<Rightarrow> (Inl (endpoint_handler ''account'' e), st1)
      | Inr data \<Rightarrow> (Inr data, st1))"

definition location_lines :: "json \<Rightarrow> exn + string list" where
  "location_lines location =
     (case py_get location ''name'' (JStr ''Unknown'') of
        Inl e \<Rightarrow> Inl e
      | Inr name \<Rightarrow>
          (case py_get location ''canonical_name'' (JStr ''Unknown'') of
             Inl e \<Rightarrow> Inl e
           | Inr canonical \<Rightarrow>
               Inr ([''- '' @ py_str name @ '' ('' @ py_str canonical @ '')'']
                    @ (case map_of (dict_items location) ''country_code'' of
                         None \<Rightarrow> [] | Some v \<Rightarrow> [''  Country Code: '' @ py_str v])
                    @ (case map_of (dict_items location) ''target_type'' of
                         None \<Rightarrow> [] | Some v \<Rightarrow> [''  Type: '' @ py_str v])
                    @ [''''])))"

definition format_locations_results :: "json \<Rightarrow> exn + string" where
  "format_locations_results response =
     (case iterate response of
        Inl e \<Rightarrow> Inl e
      | Inr locs \<Rightarrow>
          (case map_exn location_lines locs of
             Inl e \<Rightarrow> Inl e
           | Inr blocks \<Rightarrow>
               Inr (join [CHR 0x0A] (''Available Google Search Locations:'' # concat blocks))))"

text \<open>One line of the account report: \<open>if key in response: append(f"label: {response[key]}")\<close>.\<close>

definition account_line :: "json \<Rightarrow> string \<times> string \<Rightarrow> exn + string list" where
  "account_line response kl =
     (case contains response (fst kl) of
        Inl e \<Rightarrow> Inl e
      | Inr False \<Rightarrow> Inr []
      | Inr True \<Rightarrow>
          (case subscript response (fst kl) of
             Inl e \<Rightarrow> Inl e
           | Inr v \<Rightarrow> Inr [snd kl @ '': '' @ py_str v]))"

definition format_account_results :: "json \<Rightarrow> exn + string" where
  "format_account_results response =
     (case map_exn (account_line response)
             [(''account_id'', ''Account ID''), (''api_key'', ''API Key''),
              (''account_email'', ''Email''), (''plan_name'', ''Plan''),
              (''searches_per_month'', ''Searches Per Month''),
              (''plan_searches_left'', ''Searches Left'')] of
        Inl e \<Rightarrow> Inl e
      | Inr blocks \<Rightarrow>
          Inr (join [CHR 0x0A] (''SerpAPI Account Information:'' # concat blocks)))"

subsection \<open>The tool surface\<close>

text \<open>The names that \<open>list_tools\<close> advertises.\<close>

definition list_tools :: "string list" where
  "list_tools = [''google_search'', ''google_locations'', ''serpapi_account'']"

text \<open>The text of the content block for a search response.\<close>

definition response_text :: "('a, 'm, 'z) env_scheme \<Rightarrow> json \<Rightarrow> string" where
  "response_text env response =
     (case response of
        JDict d \<Rightarrow> dumps_indent env response
      | JStr s \<Rightarrow> s
      | _ \<Rightarrow> py_str response)"

text \<open>
  \<open>call_tool\<close>, with no handler of its own: the result is the text of the content block, or
  the exception that reaches the protocol layer.
\<close>

definition call_tool ::
    "google_env \<Rightarrow> string \<Rightarrow> pydict \<Rightarrow> server \<Rightarrow> (exn + string) \<times> server" where
  "call_tool env name arguments st =
     (if name = ''google_search'' then
        (case validate_args env arguments of
           Inl e \<Rightarrow> (Inl e, st)
         | Inr args \<Rightarrow>
             (case search env args st of
                (Inl e, st') \<Rightarrow> (Inl e, st')
              | (Inr response, st') \<Rightarrow> (Inr (response_text env response), st')))
      else if name = ''google_locations'' then
        (case validate_locations_args env arguments of
           Inl e \<Rightarrow> (Inl e, st)
         | Inr args \<Rightarrow>
             (case locations env args st of
                (Inl e, st') \<Rightarrow> (Inl e, st')
              | (Inr response, st') \<Rightarrow>
                  (case getattr_locations args ''readable_json'' of
                     Inl e \<Rightarrow> (Inl e, st')
                   | Inr flag \<Rightarrow>
                       if truthy flag then (format_locations_results response, st')
                       else (Inr (dumps_indent env response), st'))))
      else if name = ''google_account'' then
        (case validate_account_args env arguments of
           Inl e \<Rightarrow> (Inl e, st)
         | Inr args \<Rightarrow>
             (case account env args st of
                (Inl e, st') \<Rightarrow> (Inl e, st')
              | (Inr response, st') \<Rightarrow>
                  (case getattr_account args ''readable_json'' of
                     Inl e \<Rightarrow> (Inl e, st')
                   | Inr flag \<Rightarrow>
                       if truthy flag then (format_account_results response, st')
                       else (Inr (dumps_indent env response), st'))))
      else (Inl (McpError METHOD_NOT_FOUND (''Unknown tool: '' @ name)), st))"

section \<open>The Google Scholar adapter\<close>

record GoogleScholarArgs =
  sch_q :: "string option"
  sch_hl :: "string option"
  sch_lr :: "string option"
  sch_start :: "int option"
  sch_num :: "int option"
  sch_cites :: "string option"
  sch_as_ylo :: "int option"
  sch_as_yhi :: "int option"
  sch_scisbd :: "int option"
  sch_cluster :: "string option"
  sch_as_sdt :: "string option"
  sch_safe :: "string option"
  sch_filter :: "string option"
  sch_as_vis :: "string option"
  sch_as_rr :: "string option"
  sch_raw_json :: "bool option"
  sch_readable_json :: "bool option"

record GoogleScholarAuthor =
  au_name :: "string option"
  au_link :: "string option"
  au_serpapi_link :: "string option"

record GoogleScholarResult =
  sres_position :: "int option"
  sres_title :: string
  sres_result_id :: "string option"
  sres_link :: "string option"
  sres_snippet :: "string option"
  sres_publication_info :: "pydict option"
  sres_resources :: "pydict list option"
  sres_inline_links :: "pydict option"
  sres_cited_by :: "pydict option"
  sres_authors :: "GoogleScholarAuthor list option"
  sres_year :: "string option"
  sres_journal :: "string option"

record GoogleScholarResponseData =
  sd_search_metadata :: pydict
  sd_search_parameters :: pydict
  sd_search_information :: "pydict option"
  sd_organic_results :: "GoogleScholarResult list option"
  sd_pagination :: "pydict option"
  sd_serpapi_pagination :: "pydict option"
  sd_related_searches :: "pydict list option"
  sd_filters :: "pydict option"
  sd_error :: "string option"

type_synonym scholar_env = "(GoogleScholarArgs, GoogleScholarResponseData) env"

text \<open>\<open>CachedSearch\<close> of this adapter has no time stamp, and the server no \<open>cache_ttl\<close>.\<close>

record ScholarCachedSearch =
  sc_query :: string
  sc_response :: json

record scholar_server =
  sch_api_key :: string
  sch_cache :: "string \<rightharpoonup> ScholarCachedSearch"
  sch_requests :: "(string \<times> pydict) list"

definition scholar_params :: "string \<Rightarrow> GoogleScholarArgs \<Rightarrow> pydict" where
  "scholar_params key args =
     (let p0 = [(''engine'', JStr ''google_scholar''), (''api_key'', JStr key)];
          p1 = set_str p0 ''q'' (sch_q args);
          p2 = set_str p1 ''hl'' (sch_hl args);
          p3 = set_str p2 ''lr'' (sch_lr args);
          p4 = set_int p3 ''start'' (sch_start args);
          p5 = set_int p4 ''num'' (sch_num args);
          p6 = set_str p5 ''cites'' (sch_cites args);
          p7 = set_int p6 ''as_ylo'' (sch_as_ylo args);
          p8 = set_int p7 ''as_yhi'' (sch_as_yhi args);
          p9 = set_int p8 ''scisbd'' (sch_scisbd args);
          p10 = set_str p9 ''cluster'' (sch_cluster args);
          p11 = set_str p10 ''as_sdt'' (sch_as_sdt args);
          p12 = set_str p11 ''safe'' (sch_safe args);
          p13 = set_str p12 ''filter'' (sch_filter args);
          p14 = set_str p13 ''as_vis'' (sch_as_vis args)
      in set_str p14 ''as_rr'' (sch_as_rr args))"

text \<open>The cache key is the serialised parameters and nothing else.\<close>

definition scholar_cache_key :: "string \<Rightarrow> GoogleScholarArgs \<Rightarrow> string" where
  "scholar_cache_key key args = json_dumps_sorted (JDict (scholar_params key args))"

text \<open>
  \<open>format_google_scholar_results\<close> joins its parts without a separator. The first part is
  the title; the parts that follow (search information, parameters, results, related
  searches, pagination) are \<open>render_rest\<close>. The function never reads \<open>response.error\<close>.
\<close>

definition format_google_scholar_results ::
    "(GoogleScholarResponseData \<Rightarrow> exn + string list) \<Rightarrow> GoogleScholarResponseData
      \<Rightarrow> exn + string" where
  "format_google_scholar_results sections response =
     (case sections response of
        Inl e \<Rightarrow> Inl e
      | Inr result_parts \<Rightarrow>
          Inr (concat ((''# Google Scholar Search Results'' @ [CHR 0x0A]) # result_parts)))"

text \<open>
  A hit: the entry is converted to the requested mode where the code knows how. The
  cache holds decoded JSON and rendered strings only, so the branches for a cached model
  object are never taken; a cached value that is neither a string nor a dictionary, passed to
  the renderer, has no attribute \<open>search_information\<close>.
\<close>

definition scholar_hit :: "scholar_env \<Rightarrow> GoogleScholarArgs \<Rightarrow> json \<Rightarrow> exn + json" where
  "scholar_hit env args cached_response =
     (if truthy_bool (sch_raw_json args) then Inr cached_response
      else if truthy_bool (sch_readable_json args) then
        (case cached_response of
           JStr s \<Rightarrow> Inr cached_response
         | JDict d \<Rightarrow>
             (case validate_model env cached_response of
                Inl e \<Rightarrow> Inl e
              | Inr response_data \<Rightarrow>
                  (case format_google_scholar_results (render_rest env) response_data of
                     Inl e \<Rightarrow> Inl e
                   | Inr s \<Rightarrow> Inr (JStr s)))
         | _ \<Rightarrow> Inl (AttributeError (repr_str (type_name cached_response)
                        @ '' object has no attribute '' @ repr_str ''search_information'')))
      else
        (case cached_response of
           JDict d \<Rightarrow> Inr (clean_json_dict_scholar cached_response)
         | _ \<Rightarrow> Inr cached_response))"

definition scholar_try :: "scholar_env \<Rightarrow> GoogleScholarArgs \<Rightarrow> pydict \<Rightarrow> exn + json" where
  "scholar_try env args params =
     (case http_get env ''https://serpapi.com/search'' params of
        Inl e \<Rightarrow> Inl e
      | Inr response \<Rightarrow>
          if resp_status response \<noteq> 200 then
            (case resp_text response of
               Inl e \<Rightarrow> Inl e
             | Inr error_text \<Rightarrow>
                 Inl (McpError INTERNAL_ERROR
                        (''SerpAPI returned an error: '' @ str_int (resp_status response)
                         @ '' - '' @ error_text)))
          else
            (case resp_json response of
               Inl e \<Rightarrow> Inl e
             | Inr json_response \<Rightarrow>
                 (case contains json_response ''error'' of
                    Inl e \<Rightarrow> Inl e
                  | Inr True \<Rightarrow>
                      (case subscript json_response ''error'' of
                         Inl e \<Rightarrow> Inl e
                       | Inr v \<Rightarrow>
                           Inl (McpError INTERNAL_ERROR
                                  (''SerpAPI returned an error: '' @ py_str v)))
                  | Inr False \<Rightarrow>
                      if truthy_bool (sch_raw_json args) then Inr json_response
                      else if truthy_bool (sch_readable_json args) then
                        (case validate_model env json_response of
                           Inl e \<Rightarrow> Inl e
                         | Inr response_data \<Rightarrow>
                             (case format_google_scholar_results (render_rest env)
                                     response_data of
                                Inl e \<Rightarrow> Inl e
                              | Inr formatted_response \<Rightarrow> Inr (JStr formatted_response)))
                      else Inr (clean_json_dict_scholar json_response))))"

definition google_scholar_search ::
    "scholar_env \<Rightarrow> GoogleScholarArgs \<Rightarrow> scholar_server \<Rightarrow> (exn + json) \<times> scholar_server" where
  "google_scholar_search env args st =
     (let params = scholar_params (sch_api_key st) args;
          cache_key = scholar_cache_key (sch_api_key st) args
      in case sch_cache st cache_key of
        Some cached \<Rightarrow> (scholar_hit env args (sc_response cached), st)
      | None \<Rightarrow>
          (let st1 = st\<lparr>sch_requests := sch_requests st @ [(''https://serpapi.com/search'', params)]\<rparr>
           in case scholar_try env args params of
             Inl e \<Rightarrow> (Inl (search_handler e), st1)
           | Inr response \<Rightarrow>
               (Inr response,
                st1\<lparr>sch_cache := (sch_cache st1)(cache_key \<mapsto>
                      \<lparr>sc_query = cache_key, sc_response = response\<rparr>)\<rparr>)))"

section \<open>The Google Maps adapter\<close>

text \<open>Truth value of an optional integer (\<open>if args.tz:\<close>) and of an optional list or
  dictionary (\<open>if response.local_results:\<close>).\<close>

definition truthy_int :: "int option \<Rightarrow> bool" where
  "truthy_int i = (case i of None \<Rightarrow> False | Some v \<Rightarrow> v \<noteq> 0)"

definition truthy_list :: "'a list option \<Rightarrow> bool" where
  "truthy_list xs = (case xs of None \<Rightarrow> False | Some v \<Rightarrow> v \<noteq> [])"

record GoogleMapsSearchArgs =
  maps_q :: "string option"
  maps_type :: "string option"
  maps_data :: "string option"
  maps_place_id :: "string option"
  maps_ll :: "string option"
  maps_google_domain :: "string option"
  maps_hl :: "string option"
  maps_gl :: "string option"
  maps_start :: "int option"
  maps_raw_json :: "bool option"
  maps_readable_json :: "bool option"

text \<open>The float fields of the result models carry the text of the number.\<close>

record GoogleMapsLocation =
  gml_latitude :: "string option"
  gml_longitude :: "string option"
  gml_address :: "string option"
  gml_city :: "string option"
  gml_state :: "string option"
  gml_country :: "string option"
  gml_postal_code :: "string option"

record GoogleMapsResult =
  gmr_position :: "int option"
  gmr_title :: "string option"
  gmr_place_id :: "string option"
  gmr_data_id :: "string option"
  gmr_link :: "string option"
  gmr_type :: "string option"
  gmr_rating :: "string option"
  gmr_reviews :: "int option"
  gmr_price_level :: "string option"
  gmr_hours :: "string option"
  gmr_address :: "string option"
  gmr_description :: "string option"
  gmr_phone :: "string option"
  gmr_website :: "string option"
  gmr_thumbnail :: "string option"
  gmr_gps_coordinates :: "GoogleMapsLocation option"
  gmr_service_options :: "pydict option"
  gmr_operating_hours :: "pydict option"
  gmr_popular_times :: "pydict option"
  gmr_photos :: "pydict list option"
  gmr_reviews_data :: "pydict list option"

record GoogleMapsResponseData =
  mr_search_metadata :: pydict
  mr_search_parameters :: pydict
  mr_local_results :: "GoogleMapsResult list option"
  mr_place_results :: "pydict option"
  mr_place_results_reviews :: "pydict list option"
  mr_pagination :: "pydict option"
  mr_serpapi_pagination :: "pydict option"
  mr_error :: "string option"


definition maps_cache_key :: "GoogleMapsSearchArgs \<Rightarrow> string" where
  "maps_cache_key args =
     join ''&'' (key_part ''q'' (maps_q args) @ key_part ''type'' (maps_type args)
                 @ key_part ''data'' (maps_data args) @ key_part ''place_id'' (maps_place_id args)
                 @ key_part ''ll'' (maps_ll args)
                 @ key_part ''google_domain'' (maps_google_domain args)
                 @ key_part ''hl'' (maps_hl args) @ key_part ''gl'' (maps_gl args)
                 @ (case maps_start args of None \<Rightarrow> [] | Some n \<Rightarrow> [''start='' @ str_int n])
                 @ [format_tag (maps_raw_json args) (maps_readable_json args)])"


text \<open>
  \<open>format_google_maps_results\<close>: the error test comes first and returns; the sections for
  local results, place details, reviews and pagination are \<open>render_rest\<close>.
\<close>

definition format_google_maps_results ::
    "(GoogleMapsResponseData \<Rightarrow> exn + string list) \<Rightarrow> GoogleMapsResponseData
      \<Rightarrow> exn + string" where
  "format_google_maps_results sections response =
     (if truthy_str (mr_error response)
      then Inr (join [CHR 0x0A] [''# Error'', the (mr_error response), ''''])
      else case sections response of
        Inl e \<Rightarrow> Inl e
      | Inr result_text \<Rightarrow> Inr (join [CHR 0x0A] result_text))"

text \<open>\<open>GoogleMapsResponseData(**error_response)\<close>: the synthetic response fits the model, every
  other field takes its default.\<close>

definition maps_error_model :: "pydict \<Rightarrow> string \<Rightarrow> GoogleMapsResponseData" where
  "maps_error_model params error_message =
     \<lparr>mr_search_metadata = [(''status'', JStr ''Error'')], mr_search_parameters = params,
      mr_local_results = None, mr_place_results = None, mr_place_results_reviews = None,
      mr_pagination = None, mr_serpapi_pagination = None, mr_error = Some error_message\<rparr>"






section \<open>The Google News adapter\<close>

record GoogleNewsSearchArgs =
  news_q :: "string option"
  news_gl :: "string option"
  news_hl :: "string option"
  news_publication_token :: "string option"
  news_topic_token :: "string option"
  news_story_token :: "string option"
  news_section_token :: "string option"
  news_so :: "string option"
  news_raw_json :: "bool option"
  news_readable_json :: "bool option"

record GoogleNewsSource =
  gns_title :: "string option"
  gns_name :: "string option"
  gns_icon :: "string option"
  gns_authors :: "string list option"

record GoogleNewsAuthor =
  gna_thumbnail :: "string option"
  gna_name :: "string option"
  gna_handle :: "string option"

record GoogleNewsResult =
  gnr_position :: "int option"
  gnr_title :: "string option"
  gnr_link :: "string option"
  gnr_snippet :: "string option"
  gnr_source :: "GoogleNewsSource option"
  gnr_author :: "GoogleNewsAuthor option"
  gnr_thumbnail :: "string option"
  gnr_thumbnail_small :: "string option"
  gnr_type :: "string option"
  gnr_video :: "bool option"
  gnr_topic_token :: "string option"
  gnr_story_token :: "string option"
  gnr_serpapi_link :: "string option"
  gnr_date :: "string option"
  gnr_related_topics :: "pydict list option"
  gnr_highlight :: "pydict option"
  gnr_stories :: "pydict list option"

record GoogleNewsResponseData =
  nr_search_metadata :: pydict
  nr_search_parameters :: pydict
  nr_title :: "string option"
  nr_news_results :: "GoogleNewsResult list option"
  nr_top_stories_link :: "pydict option"
  nr_menu_links :: "pydict list option"
  nr_sub_menu_links :: "pydict list option"
  nr_related_topics :: "pydict list option"
  nr_related_publications :: "pydict list option"
  nr_pagination :: "pydict option"
  nr_serpapi_pagination :: "pydict option"
  nr_error :: "string option"


definition news_cache_key :: "GoogleNewsSearchArgs \<Rightarrow> string" where
  "news_cache_key args =
     join ''&'' (key_part ''q'' (news_q args) @ key_part ''gl'' (news_gl args)
                 @ key_part ''hl'' (news_hl args)
                 @ key_part ''publication_token'' (news_publication_token args)
                 @ key_part ''topic_token'' (news_topic_token args)
                 @ key_part ''story_token'' (news_story_token args)
                 @ key_part ''section_token'' (news_section_token args)
                 @ key_part ''so'' (news_so args)
                 @ [format_tag (news_raw_json args) (news_readable_json args)])"





text \<open>
  \<open>format_google_news_results\<close>: the title; then the news results, or else the error, or
  else a notice; then the related topics, the related publications and the pagination. The
  lines of the news results are \<open>render_rest\<close>.
\<close>

definition titled_list_lines :: "string \<Rightarrow> pydict list option \<Rightarrow> string list" where
  "titled_list_lines heading entries =
     (if truthy_list entries
      then [heading, '''']
           @ concat (map (\<lambda>entry. case map_of entry ''title'' of
                                     None \<Rightarrow> [] | Some v \<Rightarrow> [''- '' @ py_str v]) (the entries))
           @ ['''']
      else [])"

definition news_pagination_lines :: "pydict option \<Rightarrow> string list" where
  "news_pagination_lines pagination =
     (if truthy_list pagination
      then [''## Pagination'']
           @ (case map_of (the pagination) ''current'' of
                None \<Rightarrow> [] | Some v \<Rightarrow> [''Current Page: '' @ py_str v])
           @ (case map_of (the pagination) ''next'' of
                None \<Rightarrow> [] | Some v \<Rightarrow> [''Next Page Available: Yes''])
           @ ['''']
      else [])"

definition format_google_news_results ::
    "(GoogleNewsResponseData \<Rightarrow> exn + string list) \<Rightarrow> GoogleNewsResponseData
      \<Rightarrow> exn + string" where
  "format_google_news_results sections response =
     (let title_lines = (if truthy_str (nr_title response)
                         then [''# '' @ the (nr_title response), ''''] else []);
          closing_lines = titled_list_lines ''## Related Topics'' (nr_related_topics response)
            @ titled_list_lines ''## Related Publications'' (nr_related_publications response)
            @ news_pagination_lines (nr_pagination response)
      in if truthy_list (nr_news_results response) then
           (case sections response of
              Inl e \<Rightarrow> Inl e
            | Inr news_lines \<Rightarrow>
                Inr (join [CHR 0x0A] (title_lines @ news_lines @ closing_lines)))
         else if truthy_str (nr_error response) then
           Inr (join [CHR 0x0A]
                  (title_lines @ [''## Error'', the (nr_error response), ''''] @ closing_lines))
         else
           Inr (join [CHR 0x0A]
                  (title_lines @ [''## No News Results Found'', ''''] @ closing_lines)))"

definition news_error_model :: "pydict \<Rightarrow> string \<Rightarrow> GoogleNewsResponseData" where
  "news_error_model params error_message =
     \<lparr>nr_search_metadata = [(''status'', JStr ''Error'')], nr_search_parameters = params,
      nr_title = None, nr_news_results = None, nr_top_stories_link = None,
      nr_menu_links = None, nr_sub_menu_links = None, nr_related_topics = None,
      nr_related_publications = None, nr_pagination = None, nr_serpapi_pagination = None,
      nr_error = Some error_message\<rparr>"




text \<open>The document of the error model, and the synthetic error response in the mode that
  the flags select.\<close>

definition news_error_document :: "string \<Rightarrow> string" where
  "news_error_document error_message = join [CHR 0x0A] [''## Error'', error_message, '''']"


section \<open>The Google Images adapter\<close>

record GoogleImagesArgs =
  img_q :: string
  img_location :: "string option"
  img_uule :: "string option"
  img_google_domain :: "string option"
  img_gl :: "string option"
  img_hl :: "string option"
  img_cr :: "string option"
  img_device :: "string option"
  img_ijn :: "int option"
  img_chips :: "string option"
  img_tbs :: "string option"
  img_imgar :: "string option"
  img_imgsz :: "string option"
  img_image_color :: "string option"
  img_image_type :: "string option"
  img_licenses :: "string option"
  img_safe :: "string option"
  img_nfpr :: "string option"
  img_filter :: "string option"
  img_time_period :: "string option"
  img_raw_json :: "bool option"
  img_readable_json :: "bool option"

record GoogleImagesResult =
  gir_position :: "int option"
  gir_thumbnail :: "string option"
  gir_source :: "string option"
  gir_title :: "string option"
  gir_link :: "string option"
  gir_original :: "string option"
  gir_original_width :: "int option"
  gir_original_height :: "int option"
  gir_is_product :: "bool option"
  gir_in_stock :: "bool option"
  gir_source_logo :: "string option"
  gir_tag :: "string option"
  gir_license_details_url :: "string option"
  gir_related_content_id :: "string option"
  gir_serpapi_related_content_link :: "string option"

record GoogleImagesSuggestedSearch =
  gis_name :: "string option"
  gis_link :: "string option"
  gis_chips :: "string option"
  gis_serpapi_link :: "string option"
  gis_thumbnail :: "string option"

record GoogleImagesRelatedSearch =
  girs_query :: "string option"
  girs_link :: "string option"
  girs_serpapi_link :: "string option"
  girs_highlighted_words :: "string list option"
  girs_thumbnail :: "string option"

record GoogleImagesResponseData =
  ir_search_metadata :: pydict
  ir_search_parameters :: pydict
  ir_search_information :: "pydict option"
  ir_suggested_searches :: "GoogleImagesSuggestedSearch list option"
  ir_images_results :: "GoogleImagesResult list option"
  ir_related_searches :: "GoogleImagesRelatedSearch list option"
  ir_pagination :: "pydict option"
  ir_serpapi_pagination :: "pydict option"
  ir_error :: "string option"


definition images_cache_key :: "GoogleImagesArgs \<Rightarrow> string" where
  "images_cache_key args =
     join ''&'' ([''q='' @ img_q args] @ key_part ''location'' (img_location args)
                 @ key_part ''uule'' (img_uule args)
                 @ key_part ''google_domain'' (img_google_domain args)
                 @ key_part ''gl'' (img_gl args) @ key_part ''hl'' (img_hl args)
                 @ key_part ''cr'' (img_cr args) @ key_part ''device'' (img_device args)
                 @ (case img_ijn args of None \<Rightarrow> [] | Some n \<Rightarrow> [''ijn='' @ str_int n])
                 @ key_part ''chips'' (img_chips args) @ key_part ''tbs'' (img_tbs args)
                 @ key_part ''imgar'' (img_imgar args) @ key_part ''imgsz'' (img_imgsz args)
                 @ key_part ''image_color'' (img_image_color args)
                 @ key_part ''image_type'' (img_image_type args)
                 @ key_part ''licenses'' (img_licenses args) @ key_part ''safe'' (img_safe args)
                 @ key_part ''nfpr'' (img_nfpr args) @ key_part ''filter'' (img_filter args)
                 @ key_part ''time_period'' (img_time_period args)
                 @ [format_tag (img_raw_json args) (img_readable_json args)])"


text \<open>
  \<open>format_google_images_results\<close>: the title of the document, then the error test, which
  returns; the sections from the search parameters to the pagination are \<open>render_rest\<close>.
\<close>

definition format_google_images_results ::
    "(GoogleImagesResponseData \<Rightarrow> exn + string list) \<Rightarrow> GoogleImagesResponseData
      \<Rightarrow> exn + string" where
  "format_google_images_results sections response =
     (if truthy_str (ir_error response)
      then Inr (join [CHR 0x0A]
                  [''# Google Images Results'', ''## Error'', the (ir_error response), ''''])
      else case sections response of
        Inl e \<Rightarrow> Inl e
      | Inr rest \<Rightarrow> Inr (join [CHR 0x0A] (''# Google Images Results'' # rest)))"

definition images_error_model :: "pydict \<Rightarrow> string \<Rightarrow> GoogleImagesResponseData" where
  "images_error_model params error_message =
     \<lparr>ir_search_metadata = [(''status'', JStr ''Error'')], ir_search_parameters = params,
      ir_search_information = None, ir_suggested_searches = None, ir_images_results = None,
      ir_related_searches = None, ir_pagination = None, ir_serpapi_pagination = None,
      ir_error = Some error_message\<rparr>"





text \<open>The document of the error model, and the synthetic error response in the mode that
  the flags select.\<close>

definition images_error_document :: "string \<Rightarrow> string" where
  "images_error_document error_message =
     join [CHR 0x0A] [''# Google Images Results'', ''## Error'', error_message, '''']"


section \<open>The Google Trends adapter\<close>

record GoogleTrendsArgs =
  tr_q :: string
  tr_geo :: "string option"
  tr_date :: "string option"
  tr_tz :: "int option"
  tr_data_type :: "string option"
  tr_cat :: "int option"
  tr_gprop :: "string option"
  tr_raw_json :: "bool option"
  tr_readable_json :: "bool option"

record GoogleTrendsResponseData =
  td_search_metadata :: pydict
  td_search_parameters :: pydict
  td_interest_over_time :: "pydict option"
  td_interest_by_region :: "pydict option"
  td_related_topics :: "pydict option"
  td_related_queries :: "pydict option"
  td_trending_searches :: "pydict option"
  td_error :: "string option"


text \<open>\<open>if args.tz: cache_key_parts.append(f"tz={args.tz}")\<close> and
  \<open>if args.tz: params["tz"] = args.tz\<close>: the integer 0 counts as absent.\<close>

definition key_part_int :: "string \<Rightarrow> int option \<Rightarrow> string list" where
  "key_part_int k v = (if truthy_int v then [k @ ''='' @ str_int (the v)] else [])"


definition trends_cache_key :: "GoogleTrendsArgs \<Rightarrow> string" where
  "trends_cache_key args =
     join ''&'' ([''q='' @ tr_q args] @ key_part ''geo'' (tr_geo args)
                 @ key_part ''date'' (tr_date args) @ key_part_int ''tz'' (tr_tz args)
                 @ key_part ''data_type'' (tr_data_type args)
                 @ key_part_int ''cat'' (tr_cat args) @ key_part ''gprop'' (tr_gprop args)
                 @ [format_tag (tr_raw_json args) (tr_readable_json args)])"


text \<open>
  \<open>format_google_trends_results\<close>: the title of the document, then the error test, which
  returns; the sections from the search parameters to the trending searches are
  \<open>render_rest\<close>.
\<close>

definition format_google_trends_results ::
    "(GoogleTrendsResponseData \<Rightarrow> exn + string list) \<Rightarrow> GoogleTrendsResponseData
      \<Rightarrow> exn + string" where
  "format_google_trends_results sections response =
     (if truthy_str (td_error response)
      then Inr (join [CHR 0x0A]
                  [''# Google Trends Results'', ''## Error'', the (td_error response), ''''])
      else case sections response of
        Inl e \<Rightarrow> Inl e
      | Inr rest \<Rightarrow> Inr (join [CHR 0x0A] (''# Google Trends Results'' # rest)))"

definition trends_error_model :: "pydict \<Rightarrow> string \<Rightarrow> GoogleTrendsResponseData" where
  "trends_error_model params error_message =
     \<lparr>td_search_metadata = [(''status'', JStr ''Error'')], td_search_parameters = params,
      td_interest_over_time = None, td_interest_by_region = None, td_related_topics = None,
      td_related_queries = None, td_trending_searches = None,
      td_error = Some error_message\<rparr>"





text \<open>The document of the error model, and the synthetic error response in the mode that
  the flags select.\<close>

definition trends_error_document :: "string \<Rightarrow> string" where
  "trends_error_document error_message =
     join [CHR 0x0A] [''# Google Trends Results'', ''## Error'', error_message, '''']"


section \<open>The YouTube search adapter\<close>

text \<open>\<open>clean_json_dict\<close> of \<open>serpapi_youtube_search.py\<close> has the text of the one in
  \<open>youtube_transcript.py\<close>, which is \<open>clean_json_dict_transcript\<close> above.\<close>

record YouTubeSearchArgs =
  yts_search_query :: string
  yts_gl :: "string option"
  yts_hl :: "string option"
  yts_sp :: "string option"
  yts_raw_json :: "bool option"
  yts_readable_json :: "bool option"

record YouTubeVideoArgs =
  ytv_v :: string
  ytv_gl :: "string option"
  ytv_hl :: "string option"
  ytv_next_page_token :: "string option"
  ytv_raw_json :: "bool option"
  ytv_readable_json :: "bool option"

text \<open>The thumbnail of a video is a string or a dictionary of strings.\<close>

record YouTubeVideoResult =
  yvr_position :: "int option"
  yvr_title :: string
  yvr_link :: string
  yvr_thumbnail :: "json option"
  yvr_channel :: "pydict option"
  yvr_published_date :: "string option"
  yvr_views :: "int option"
  yvr_length :: "string option"
  yvr_description :: "string option"
  yvr_extensions :: "string list option"
  yvr_video_id :: "string option"

record YouTubeSearchResponseData =
  ysd_search_metadata :: pydict
  ysd_search_parameters :: pydict
  ysd_search_information :: "pydict option"
  ysd_video_results :: "YouTubeVideoResult list option"
  ysd_channel_results :: "pydict list option"
  ysd_playlist_results :: "pydict list option"
  ysd_shorts_results :: "pydict list option"
  ysd_related_searches :: "pydict list option"
  ysd_pagination :: "pydict option"
  ysd_serpapi_pagination :: "pydict option"
  ysd_error :: "string option"

record YouTubeVideoResponseData =
  yvd_search_metadata :: pydict
  yvd_search_parameters :: pydict
  yvd_video_information :: "pydict option"
  yvd_video_details :: "pydict option"
  yvd_related_videos :: "pydict list option"
  yvd_comments :: "pydict list option"
  yvd_pagination :: "pydict option"
  yvd_serpapi_pagination :: "pydict option"
  yvd_error :: "string option"



subsection \<open>\<open>youtube_search\<close>\<close>

definition youtube_search_cache_key :: "YouTubeSearchArgs \<Rightarrow> string" where
  "youtube_search_cache_key args =
     join ''&'' ([''search_query='' @ yts_search_query args] @ key_part ''gl'' (yts_gl args)
                 @ key_part ''hl'' (yts_hl args) @ key_part ''sp'' (yts_sp args)
                 @ [format_tag (yts_raw_json args) (yts_readable_json args)])"


text \<open>
  \<open>format_youtube_search_results\<close> has six sections, each under the test of its field
  (\<open>if response.search_information:\<close> and so on), and never reads \<open>response.error\<close>. When
  every test fails the list of lines is empty; otherwise the lines are \<open>render_rest\<close>.
\<close>

definition format_youtube_search_results ::
    "(YouTubeSearchResponseData \<Rightarrow> exn + string list) \<Rightarrow> YouTubeSearchResponseData
      \<Rightarrow> exn + string" where
  "format_youtube_search_results sections response =
     (if \<not> truthy_list (ysd_search_information response)
         \<and> \<not> truthy_list (ysd_video_results response)
         \<and> \<not> truthy_list (ysd_channel_results response)
         \<and> \<not> truthy_list (ysd_playlist_results response)
         \<and> \<not> truthy_list (ysd_shorts_results response)
         \<and> \<not> truthy_list (ysd_related_searches response)
      then Inr (join [CHR 0x0A] [])
      else case sections response of
        Inl e \<Rightarrow> Inl e
      | Inr result \<Rightarrow> Inr (join [CHR 0x0A] result))"

definition youtube_search_error_model :: "pydict \<Rightarrow> string \<Rightarrow> YouTubeSearchResponseData" where
  "youtube_search_error_model params error_message =
     \<lparr>ysd_search_metadata = [(''status'', JStr ''Error'')], ysd_search_parameters = params,
      ysd_search_information = None, ysd_video_results = None, ysd_channel_results = None,
      ysd_playlist_results = None, ysd_shorts_results = None, ysd_related_searches = None,
      ysd_pagination = None, ysd_serpapi_pagination = None,
      ysd_error = Some error_message\<rparr>"





subsection \<open>\<open>youtube_video\<close>\<close>

definition youtube_video_cache_key :: "YouTubeVideoArgs \<Rightarrow> string" where
  "youtube_video_cache_key args =
     join ''&'' ([''v='' @ ytv_v args] @ key_part ''gl'' (ytv_gl args)
                 @ key_part ''hl'' (ytv_hl args)
                 @ key_part ''next_page_token'' (ytv_next_page_token args)
                 @ [format_tag (ytv_raw_json args) (ytv_readable_json args)])"


text \<open>
  \<open>format_youtube_video_results\<close> has four sections, each under the test of its field,
  and never reads \<open>response.error\<close>. When every test fails the list of lines is empty;
  otherwise the lines are \<open>render_rest\<close>.
\<close>

definition format_youtube_video_results ::
    "(YouTubeVideoResponseData \<Rightarrow> exn + string list) \<Rightarrow> YouTubeVideoResponseData
      \<Rightarrow> exn + string" where
  "format_youtube_video_results sections response =
     (if \<not> truthy_list (yvd_video_information response)
         \<and> \<not> truthy_list (yvd_video_details response)
         \<and> \<not> truthy_list (yvd_related_videos response)
         \<and> \<not> truthy_list (yvd_comments response)
      then Inr (join [CHR 0x0A] [])
      else case sections response of
        Inl e \<Rightarrow> Inl e
      | Inr result \<Rightarrow> Inr (join [CHR 0x0A] result))"

definition youtube_video_error_model :: "pydict \<Rightarrow> string \<Rightarrow> YouTubeVideoResponseData" where
  "youtube_video_error_model params error_message =
     \<lparr>yvd_search_metadata = [(''status'', JStr ''Error'')], yvd_search_parameters = params,
      yvd_video_information = None, yvd_video_details = None, yvd_related_videos = None,
      yvd_comments = None, yvd_pagination = None, yvd_serpapi_pagination = None,
      yvd_error = Some error_message\<rparr>"





section \<open>Concrete environments\<close>

text \<open>
  An environment for running an adapter on one concrete exchange: the upstream answers
  every request with the given outcome and the clock shows the two given times. The
  validation rejects what it is given, the rest of a template appends nothing,
  \<open>json.loads\<close> fails and the indented serialisation is the plain one.
\<close>

definition stub_env :: "exn + http_response \<Rightarrow> real \<Rightarrow> real \<Rightarrow> ('args, 'model) env" where
  "stub_env outcome t_lookup t_store =
     \<lparr>http_get = (\<lambda>url params. outcome), now = t_lookup, clock = t_store,
      validate_args = (\<lambda>arguments. Inl (ValidationError ''validation error'')),
      validate_model = (\<lambda>data. Inl (ValidationError ''validation error'')),
      render_rest = (\<lambda>response. Inr []),
      json_loads = (\<lambda>s. Inl (JSONDecodeError ''Expecting value'')),
      dumps_indent = json_dumps_sorted\<rparr>"

text \<open>A template remainder that appends nothing.\<close>

definition no_sections :: "'model \<Rightarrow> exn + string list" where
  "no_sections response = Inr []"

text \<open>Requests with the defaults of the argument models, for the query and the two mode
  flags given.\<close>

definition search_request :: "string \<Rightarrow> bool \<Rightarrow> bool \<Rightarrow> GoogleSearchArgs" where
  "search_request q raw readable =
     \<lparr>gs_q = q, gs_num = Some 10, gs_start = None, gs_location = None, gs_gl = None,
      gs_hl = None, gs_device = None, gs_safe = None, gs_filter = None, gs_time_period = None,
      gs_exactTerms = None, gs_include_domains = [], gs_exclude_domains = [],
      gs_raw_json = Some raw, gs_readable_json = Some readable\<rparr>"

definition scholar_request :: "string \<Rightarrow> bool \<Rightarrow> bool \<Rightarrow> GoogleScholarArgs" where
  "scholar_request q raw readable =
     \<lparr>sch_q = Some q, sch_hl = None, sch_lr = None, sch_start = None, sch_num = None,
      sch_cites = None, sch_as_ylo = None, sch_as_yhi = None, sch_scisbd = None,
      sch_cluster = None, sch_as_sdt = None, sch_safe = None, sch_filter = None,
      sch_as_vis = None, sch_as_rr = None,
      sch_raw_json = Some raw, sch_readable_json = Some readable\<rparr>"










text \<open>A server that has just been constructed.\<close>

definition new_server :: "string \<Rightarrow> server" where
  "new_server key = \<lparr>api_key = key, cache = Map.empty, requests = []\<rparr>"

definition new_scholar_server :: "string \<Rightarrow> scholar_server" where
  "new_scholar_server key = \<lparr>sch_api_key = key, sch_cache = Map.empty, sch_requests = []\<rparr>"

text \<open>An upstream answer with status 200 and the given decoded body.\<close>

definition ok_response :: "json \<Rightarrow> exn + http_response" where
  "ok_response body =
     Inr \<lparr>resp_status = 200, resp_text = Inr (json_dumps_sorted body), resp_json = Inr body\<rparr>"

text \<open>An upstream answer with status 500.\<close>

definition server_error_response :: "exn + http_response" where
  "server_error_response =
     Inr \<lparr>resp_status = 500, resp_text = Inr ''Internal Server Error'',
          resp_json = Inl (ClientError ''unexpected mimetype'')\<rparr>"





text \<open>A validated Google Search response with the given search information and error and
  no result category.\<close>

definition search_response_with ::
    "pydict option \<Rightarrow> string option \<Rightarrow> SearchResponseData" where
  "search_response_with info err =
     \<lparr>sr_search_metadata = [], sr_search_parameters = [], sr_search_information = info,
      sr_organic_results = [], sr_related_searches = None, sr_pagination = None,
      sr_serpapi_pagination = None, sr_knowledge_graph = None, sr_answer_box = None,
      sr_related_questions = None, sr_shopping_results = None, sr_top_stories = None,
      sr_news_results = None, sr_local_results = None, sr_local_map = None,
      sr_images_results = None, sr_video_results = None, sr_twitter_results = None,
      sr_jobs_results = None, sr_recipes_results = None, sr_ads = None,
      sr_inline_videos = None, sr_inline_images = None, sr_inline_shopping = None,
      sr_inline_tweets = None, sr_error = err\<rparr>"
section \<open>Properties of clean mode\<close>

text \<open>What the Maps variant does achieve: no key of the output is mapped to \<open>null\<close> or \<open>""\<close>,
  and no list of the output has a \<open>null\<close> element.\<close>

lemma clean_maps_not_null: "v \<noteq> JNull \<Longrightarrow> clean_json_dict_maps v \<noteq> JNull"
  by (cases v) simp_all

lemma clean_maps_not_blank: "is_kept v \<Longrightarrow> clean_json_dict_maps v \<noteq> JStr []"
  by (cases v) (simp_all add: is_kept_def)

lemma clean_maps_no_null_or_blank: "no_null_or_blank (clean_json_dict_maps v)"
proof (induction v rule: clean_json_dict_maps.induct)
  case (1 d)
  then show ?case
    by (auto simp: list_all_iff is_kept_def clean_maps_not_null clean_maps_not_blank)
next
  case (2 xs)
  then show ?case by (auto simp: list_all_iff clean_maps_not_null)
qed simp_all

text \<open>
  C1, evaluated on the two variants. The emptiness test is applied to a value as it stands
  in the input, before the recursive call, so a map that becomes empty only through cleaning
  stays bound to its key: the Maps variant turns \<open>{"a": {"b": null}}\<close> into \<open>{"a": {}}\<close>, where
  the reference pruning gives \<open>{}\<close>. The Google Search variant turns \<open>{"a": [[]]}\<close> into
  \<open>{"a": null}\<close>, where the reference pruning keeps the list. Either output has a key mapped
  to an empty or null value.
\<close>

theorem clean_json_dict_keeps_emptied_values:
  "clean_json_dict_maps (JDict [(''a'', JDict [(''b'', JNull)])]) = JDict [(''a'', JDict [])]
   \<and> prune_spec (JDict [(''a'', JDict [(''b'', JNull)])]) = JDict []
   \<and> \<not> pruned (clean_json_dict_maps (JDict [(''a'', JDict [(''b'', JNull)])]))
   \<and> clean_json_dict_search (JDict [(''a'', JList [JList []])]) = JDict [(''a'', JNull)]
   \<and> prune_spec (JDict [(''a'', JList [JList []])]) = JDict [(''a'', JList [JList []])]
   \<and> \<not> pruned (clean_json_dict_search (JDict [(''a'', JList [JList []])]))"
  by (simp add: is_kept_def)

section \<open>Video-ID extraction\<close>

lemma transcript_error_prefix: "take 7 (transcript_error args e) = ''Error: ''"
  by (cases e) simp_all

lemma extract_youtu_be:
  "extract_video_id lib ''https://youtu.be/abc123XYZ9'' = Inr ''abc123XYZ9''"
  by code_simp

lemma extract_watch:
  "extract_video_id lib ''https://www.youtube.com/watch?v=abc123XYZ9&t=5'' = Inr ''abc123XYZ9''"
  by code_simp

lemma extract_shorts:
  "extract_video_id lib ''https://www.youtube.com/shorts/abc123XYZ9'' = Inr ''abc123XYZ9''"
  by code_simp

lemma extract_bare:
  "length url \<le> 11 \<Longrightarrow> CHR ''/'' \<notin> set url \<Longrightarrow> CHR ''.'' \<notin> set url
    \<Longrightarrow> extract_video_id lib url = Inr url"
  by (simp add: extract_video_id_def)

lemma get_transcript_extract_error:
  "extract_video_id lib (video_url args) = Inl e \<Longrightarrow>
     get_transcript lib api fmt args tc = (JStr (transcript_error args e), tc)"
  by (simp add: get_transcript_def get_transcript_body_def)

text \<open>
  C9. \<open>extract_video_id\<close> maps the short, the watch and the Shorts URL of the claim to
  \<open>abc123XYZ9\<close>, whatever the library parameters do; it returns the bare \<open>abc123XYZ9\<close> and
  every string of 11 characters with no slash and no dot unchanged; and when it raises on the URL of a request,
  \<open>get_transcript\<close> returns a string that starts with \<open>Error: \<close> and leaves the cache as it
  was: no exception leaves \<open>get_transcript\<close>.
\<close>

theorem extract_video_id_shapes:
  "extract_video_id lib ''https://youtu.be/abc123XYZ9'' = Inr ''abc123XYZ9''
   \<and> extract_video_id lib ''https://www.youtube.com/watch?v=abc123XYZ9&t=5'' = Inr ''abc123XYZ9''
   \<and> extract_video_id lib ''https://www.youtube.com/shorts/abc123XYZ9'' = Inr ''abc123XYZ9''
   \<and> extract_video_id lib ''abc123XYZ9'' = Inr ''abc123XYZ9''
   \<and> (length url = 11 \<and> CHR ''/'' \<notin> set url \<and> CHR ''.'' \<notin> set url
        \<longrightarrow> extract_video_id lib url = Inr url)
   \<and> (extract_video_id lib (video_url args) = Inl e
        \<longrightarrow> get_transcript lib api fmt args tc = (JStr (transcript_error args e), tc)
            \<and> take 7 (transcript_error args e) = ''Error: '')"
  using extract_youtu_be extract_watch extract_shorts extract_bare [of url lib]
    extract_bare [of "''abc123XYZ9''" lib]
    get_transcript_extract_error [of lib args e api fmt tc] transcript_error_prefix [of args e]
  by simp

theorem extract_video_id_shapes_witness:
  "(length ''dQw4w9WgXcQ'' = 11 \<and> CHR ''/'' \<notin> set ''dQw4w9WgXcQ'' \<and> CHR ''.'' \<notin> set ''dQw4w9WgXcQ'')
   \<and> extract_video_id
         \<lparr>check_bracketed_host = (\<lambda>h. None), checknetloc = (\<lambda>n. None), unquote_escapes = (\<lambda>s. s)\<rparr>
         ''dQw4w9WgXcQ'' = Inr ''dQw4w9WgXcQ''
   \<and> extract_video_id
         \<lparr>check_bracketed_host = (\<lambda>h. None), checknetloc = (\<lambda>n. None), unquote_escapes = (\<lambda>s. s)\<rparr>
         ''https://example.com/clip'' = Inl (ValueError ''Could not extract video ID from URL'')
   \<and> get_transcript
         \<lparr>check_bracketed_host = (\<lambda>h. None), checknetloc = (\<lambda>n. None), unquote_escapes = (\<lambda>s. s)\<rparr>
         (\<lambda>video_id proxies cookies. Inl (VideoUnavailable []))
         (\<lambda>start. Inl (TypeError []))
         \<lparr>video_url = ''https://example.com/clip'', with_timestamps = Some False,
          language = Some ''en'', preserve_formatting = Some False, cookies_path = None,
          proxy = None, yt_raw_json = Some False, yt_readable_json = Some False,
          text_transcript = Some False\<rparr>
         Map.empty
       = (JStr ''Error: Could not extract video ID from URL'', Map.empty)"
proof -
  let ?lib = "\<lparr>check_bracketed_host = (\<lambda>h. None), checknetloc = (\<lambda>n. None),
               unquote_escapes = (\<lambda>s. s)\<rparr>"
  let ?args = "\<lparr>video_url = ''https://example.com/clip'', with_timestamps = Some False,
          language = Some ''en'', preserve_formatting = Some False, cookies_path = None,
          proxy = None, yt_raw_json = Some False, yt_readable_json = Some False,
          text_transcript = Some False\<rparr>"
  have bare: "length ''dQw4w9WgXcQ'' = 11 \<and> CHR ''/'' \<notin> set ''dQw4w9WgXcQ''
      \<and> CHR ''.'' \<notin> set ''dQw4w9WgXcQ''"
    by simp
  have raised: "extract_video_id ?lib (video_url ?args)
      = Inl (ValueError ''Could not extract video ID from URL'')"
    by code_simp
  show ?thesis
    using extract_video_id_shapes [of ?lib "''dQw4w9WgXcQ''" ?args
        "ValueError ''Could not extract video ID from URL''"
        "\<lambda>video_id proxies cookies. Inl (VideoUnavailable [])"
        "\<lambda>start. Inl (TypeError [])" Map.empty] bare raised
    by simp
qed

section \<open>The tool surface of the Google Search server\<close>

text \<open>
  C10. \<open>serpapi_account\<close> is a name that \<open>list_tools\<close> advertises, and a call under that name
  raises \<open>McpError\<close> with the code \<open>METHOD_NOT_FOUND\<close>; the server state, with its list of
  upstream requests, is as before the call.
\<close>

theorem serpapi_account_method_not_found:
  "''serpapi_account'' \<in> set list_tools
   \<and> call_tool env ''serpapi_account'' arguments st
       = (Inl (McpError METHOD_NOT_FOUND ''Unknown tool: serpapi_account''), st)"
  by (simp add: list_tools_def call_tool_def)

theorem serpapi_account_method_not_found_witness:
  "call_tool
     (env.extend (stub_env (Inl (ClientError ''unreachable'')) 0 0)
        (search_env.fields (\<lambda>a. Inl (ValidationError [])) (\<lambda>a. Inr GoogleAccountArgs)))
     ''serpapi_account'' []
     \<lparr>api_key = ''secret'', cache = Map.empty, requests = []\<rparr>
   = (Inl (McpError (- 32601) ''Unknown tool: serpapi_account''),
      \<lparr>api_key = ''secret'', cache = Map.empty, requests = []\<rparr>)"
  using serpapi_account_method_not_found
    [of "env.extend (stub_env (Inl (ClientError ''unreachable'')) 0 0)
        (search_env.fields (\<lambda>a. Inl (ValidationError [])) (\<lambda>a. Inr GoogleAccountArgs))"
        "[]" "\<lparr>api_key = ''secret'', cache = Map.empty, requests = []\<rparr>"]
  by (simp add: METHOD_NOT_FOUND_def)

text \<open>
  C8. When the arguments validate and the upstream call succeeds, the \<open>google_locations\<close>
  and the \<open>google_account\<close> branch raise \<open>AttributeError\<close> at \<open>args.readable_json\<close>, which no
  handler catches; and on no path does either branch return a payload.
\<close>

theorem locations_and_account_raise_attribute_error:
  "(validate_locations_args env arguments = Inr largs \<and> locations env largs st = (Inr data, st')
      \<longrightarrow> call_tool env ''google_locations'' arguments st
            = (Inl (no_attribute ''GoogleLocationsArgs'' ''readable_json''), st'))
   \<and> (validate_account_args env arguments = Inr aargs \<and> account env aargs st = (Inr data, st')
      \<longrightarrow> call_tool env ''google_account'' arguments st
            = (Inl (no_attribute ''GoogleAccountArgs'' ''readable_json''), st'))
   \<and> call_tool env ''google_locations'' arguments st \<noteq> (Inr text, st'')
   \<and> call_tool env ''google_account'' arguments st \<noteq> (Inr text, st'')"
  by (auto simp: call_tool_def getattr_locations_def getattr_account_def
           split: sum.splits prod.splits)

theorem locations_and_account_raise_attribute_error_witness:
  "validate_locations_args
     (env.extend
        (stub_env (Inr \<lparr>resp_status = 200, resp_text = Inr ''[]'', resp_json = Inr (JList [])\<rparr>) 0 0)
        (search_env.fields (\<lambda>a. Inr \<lparr>loc_q = None, loc_limit = None\<rparr>) (\<lambda>a. Inr GoogleAccountArgs)))
     [] = Inr \<lparr>loc_q = None, loc_limit = None\<rparr>
   \<and> locations
     (env.extend
        (stub_env (Inr \<lparr>resp_status = 200, resp_text = Inr ''[]'', resp_json = Inr (JList [])\<rparr>) 0 0)
        (search_env.fields (\<lambda>a. Inr \<lparr>loc_q = None, loc_limit = None\<rparr>) (\<lambda>a. Inr GoogleAccountArgs)))
     \<lparr>loc_q = None, loc_limit = None\<rparr>
     \<lparr>api_key = ''secret'', cache = Map.empty, requests = []\<rparr>
     = (Inr (JList []),
        \<lparr>api_key = ''secret'', cache = Map.empty,
         requests = [(''https://serpapi.com/locations.json'', [(''api_key'', JStr ''secret'')])]\<rparr>)
   \<and> call_tool
     (env.extend
        (stub_env (Inr \<lparr>resp_status = 200, resp_text = Inr ''[]'', resp_json = Inr (JList [])\<rparr>) 0 0)
        (search_env.fields (\<lambda>a. Inr \<lparr>loc_q = None, loc_limit = None\<rparr>) (\<lambda>a. Inr GoogleAccountArgs)))
     ''google_locations'' []
     \<lparr>api_key = ''secret'', cache = Map.empty, requests = []\<rparr>
     = (Inl (AttributeError
          (repr_str ''GoogleLocationsArgs'' @ '' object has no attribute '' @ repr_str ''readable_json'')),
        \<lparr>api_key = ''secret'', cache = Map.empty,
         requests = [(''https://serpapi.com/locations.json'', [(''api_key'', JStr ''secret'')])]\<rparr>)
   \<and> call_tool
     (env.extend
        (stub_env (Inr \<lparr>resp_status = 200, resp_text = Inr ''[]'', resp_json = Inr (JList [])\<rparr>) 0 0)
        (search_env.fields (\<lambda>a. Inr \<lparr>loc_q = None, loc_limit = None\<rparr>) (\<lambda>a. Inr GoogleAccountArgs)))
     ''google_account'' []
     \<lparr>api_key = ''secret'', cache = Map.empty, requests = []\<rparr>
     = (Inl (AttributeError
          (repr_str ''GoogleAccountArgs'' @ '' object has no attribute '' @ repr_str ''readable_json'')),
        \<lparr>api_key = ''secret'', cache = Map.empty,
         requests = [(''https://serpapi.com/account.json'', [(''api_key'', JStr ''secret'')])]\<rparr>)"
proof -
  let ?env = "env.extend
        (stub_env (Inr \<lparr>resp_status = 200, resp_text = Inr ''[]'', resp_json = Inr (JList [])\<rparr>) 0 0)
        (search_env.fields (\<lambda>a. Inr \<lparr>loc_q = None, loc_limit = None\<rparr>) (\<lambda>a. Inr GoogleAccountArgs))"
  let ?st = "\<lparr>api_key = ''secret'', cache = Map.empty, requests = []\<rparr>"
  let ?st1 = "\<lparr>api_key = ''secret'', cache = Map.empty,
         requests = [(''https://serpapi.com/locations.json'', [(''api_key'', JStr ''secret'')])]\<rparr>"
  let ?st2 = "\<lparr>api_key = ''secret'', cache = Map.empty,
         requests = [(''https://serpapi.com/account.json'', [(''api_key'', JStr ''secret'')])]\<rparr>"
  have v1: "validate_locations_args ?env [] = Inr \<lparr>loc_q = None, loc_limit = None\<rparr>"
    by (simp add: search_env.defs env.defs stub_env_def)
  have v2: "validate_account_args ?env [] = Inr GoogleAccountArgs"
    by (simp add: search_env.defs env.defs stub_env_def)
  have l: "locations ?env \<lparr>loc_q = None, loc_limit = None\<rparr> ?st = (Inr (JList []), ?st1)"
    by (simp add: locations_def locations_try_def send_def set_truthy_str_def truthy_str_def
        search_env.defs env.defs stub_env_def)
  have a: "account ?env GoogleAccountArgs ?st = (Inr (JList []), ?st2)"
    by (simp add: account_def account_try_def send_def search_env.defs env.defs stub_env_def)
  from locations_and_account_raise_attribute_error
    [of ?env "[]" "\<lparr>loc_q = None, loc_limit = None\<rparr>" ?st "JList []" ?st1 GoogleAccountArgs]
    v1 l
  have c1: "call_tool ?env ''google_locations'' [] ?st
      = (Inl (no_attribute ''GoogleLocationsArgs'' ''readable_json''), ?st1)"
    by blast
  from locations_and_account_raise_attribute_error
    [of ?env "[]" "\<lparr>loc_q = None, loc_limit = None\<rparr>" ?st "JList []" ?st2 GoogleAccountArgs]
    v2 a
  have c2: "call_tool ?env ''google_account'' [] ?st
      = (Inl (no_attribute ''GoogleAccountArgs'' ''readable_json''), ?st2)"
    by blast
  from v1 l c1 c2 show ?thesis
    by (simp only: no_attribute_def)
qed

section \<open>Cache keys\<close>

lemma join_snoc: "join sep (ps @ [t]) = (if ps = [] then t else join sep ps @ sep @ t)"
  by (induction sep ps rule: join.induct) auto

lemma join_snoc_inject: "join sep (ps @ [t1]) = join sep (ps @ [t2]) \<Longrightarrow> t1 = t2"
  by (simp add: join_snoc split: if_splits)

lemma format_tag_distinct:
  "selected_mode r1 d1 \<noteq> selected_mode r2 d2 \<Longrightarrow> format_tag r1 d1 \<noteq> format_tag r2 d2"
  by (auto simp: selected_mode_def format_tag_def split: if_splits)

lemma finance_key_modes:
  assumes "selected_mode r1 d1 \<noteq> selected_mode r2 d2"
  shows "finance_cache_key (fa\<lparr>fin_raw_json := r1, fin_readable_json := d1\<rparr>)
     \<noteq> finance_cache_key (fa\<lparr>fin_raw_json := r2, fin_readable_json := d2\<rparr>)"
proof
  let ?ps = "[''q='' @ fin_q fa] @ key_part ''hl'' (fin_hl fa)
        @ key_part ''window'' (fin_window fa)"
  have k: "\<And>r d. finance_cache_key (fa\<lparr>fin_raw_json := r, fin_readable_json := d\<rparr>)
      = join ''&'' (?ps @ [format_tag r d])"
    by (simp add: finance_cache_key_def)
  assume "finance_cache_key (fa\<lparr>fin_raw_json := r1, fin_readable_json := d1\<rparr>)
     = finance_cache_key (fa\<lparr>fin_raw_json := r2, fin_readable_json := d2\<rparr>)"
  then have "join ''&'' (?ps @ [format_tag r1 d1]) = join ''&'' (?ps @ [format_tag r2 d2])"
    by (simp only: k)
  then have "format_tag r1 d1 = format_tag r2 d2"
    by (rule join_snoc_inject)
  with format_tag_distinct [OF assms] show False
    by simp
qed

lemma maps_key_modes:
  assumes "selected_mode r1 d1 \<noteq> selected_mode r2 d2"
  shows "maps_cache_key (ma\<lparr>maps_raw_json := r1, maps_readable_json := d1\<rparr>)
     \<noteq> maps_cache_key (ma\<lparr>maps_raw_json := r2, maps_readable_json := d2\<rparr>)"
proof
  let ?ps = "key_part ''q'' (maps_q ma) @ key_part ''type'' (maps_type ma)
        @ key_part ''data'' (maps_data ma) @ key_part ''place_id'' (maps_place_id ma)
        @ key_part ''ll'' (maps_ll ma)
        @ key_part ''google_domain'' (maps_google_domain ma)
        @ key_part ''hl'' (maps_hl ma) @ key_part ''gl'' (maps_gl ma)
        @ (case maps_start ma of None \<Rightarrow> [] | Some n \<Rightarrow> [''start='' @ str_int n])"
  have k: "\<And>r d. maps_cache_key (ma\<lparr>maps_raw_json := r, maps_readable_json := d\<rparr>)
      = join ''&'' (?ps @ [format_tag r d])"
    by (simp add: maps_cache_key_def)
  assume "maps_cache_key (ma\<lparr>maps_raw_json := r1, maps_readable_json := d1\<rparr>)
     = maps_cache_key (ma\<lparr>maps_raw_json := r2, maps_readable_json := d2\<rparr>)"
  then have "join ''&'' (?ps @ [format_tag r1 d1]) = join ''&'' (?ps @ [format_tag r2 d2])"
    by (simp only: k)
  then have "format_tag r1 d1 = format_tag r2 d2"
    by (rule join_snoc_inject)
  with format_tag_distinct [OF assms] show False
    by simp
qed

lemma news_key_modes:
  assumes "selected_mode r1 d1 \<noteq> selected_mode r2 d2"
  shows "news_cache_key (na\<lparr>news_raw_json := r1, news_readable_json := d1\<rparr>)
     \<noteq> news_cache_key (na\<lparr>news_raw_json := r2, news_readable_json := d2\<rparr>)"
proof
  let ?ps = "key_part ''q'' (news_q na) @ key_part ''gl'' (news_gl na)
        @ key_part ''hl'' (news_hl na)
        @ key_part ''publication_token'' (news_publication_token na)
        @ key_part ''topic_token'' (news_topic_token na)
        @ key_part ''story_token'' (news_story_token na)
        @ key_part ''section_token'' (news_section_token na)
        @ key_part ''so'' (news_so na)"
  have k: "\<And>r d. news_cache_key (na\<lparr>news_raw_json := r, news_readable_json := d\<rparr>)
      = join ''&'' (?ps @ [format_tag r d])"
    by (simp add: news_cache_key_def)
  assume "news_cache_key (na\<lparr>news_raw_json := r1, news_readable_json := d1\<rparr>)
     = news_cache_key (na\<lparr>news_raw_json := r2, news_readable_json := d2\<rparr>)"
  then have "join ''&'' (?ps @ [format_tag r1 d1]) = join ''&'' (?ps @ [format_tag r2 d2])"
    by (simp only: k)
  then have "format_tag r1 d1 = format_tag r2 d2"
    by (rule join_snoc_inject)
  with format_tag_distinct [OF assms] show False
    by simp
qed

lemma images_key_modes:
  assumes "selected_mode r1 d1 \<noteq> selected_mode r2 d2"
  shows "images_cache_key (ia\<lparr>img_raw_json := r1, img_readable_json := d1\<rparr>)
     \<noteq> images_cache_key (ia\<lparr>img_raw_json := r2, img_readable_json := d2\<rparr>)"
proof
  let ?ps = "[''q='' @ img_q ia] @ key_part ''location'' (img_location ia)
        @ key_part ''uule'' (img_uule ia)
        @ key_part ''google_domain'' (img_google_domain ia)
        @ key_part ''gl'' (img_gl ia) @ key_part ''hl'' (img_hl ia)
        @ key_part ''cr'' (img_cr ia) @ key_part ''device'' (img_device ia)
        @ (case img_ijn ia of None \<Rightarrow> [] | Some n \<Rightarrow> [''ijn='' @ str_int n])
        @ key_part ''chips'' (img_chips ia) @ key_part ''tbs'' (img_tbs ia)
        @ key_part ''imgar'' (img_imgar ia) @ key_part ''imgsz'' (img_imgsz ia)
        @ key_part ''image_color'' (img_image_color ia)
        @ key_part ''image_type'' (img_image_type ia)
        @ key_part ''licenses'' (img_licenses ia) @ key_part ''safe'' (img_safe ia)
        @ key_part ''nfpr'' (img_nfpr ia) @ key_part ''filter'' (img_filter ia)
        @ key_part ''time_period'' (img_time_period ia)"
  have k: "\<And>r d. images_cache_key (ia\<lparr>img_raw_json := r, img_readable_json := d\<rparr>)
      = join ''&'' (?ps @ [format_tag r d])"
    by (simp add: images_cache_key_def)
  assume "images_cache_key (ia\<lparr>img_raw_json := r1, img_readable_json := d1\<rparr>)
     = images_cache_key (ia\<lparr>img_raw_json := r2, img_readable_json := d2\<rparr>)"
  then have "join ''&'' (?ps @ [format_tag r1 d1]) = join ''&'' (?ps @ [format_tag r2 d2])"
    by (simp only: k)
  then have "format_tag r1 d1 = format_tag r2 d2"
    by (rule join_snoc_inject)
  with format_tag_distinct [OF assms] show False
    by simp
qed

lemma trends_key_modes:
  assumes "selected_mode r1 d1 \<noteq> selected_mode r2 d2"
  shows "trends_cache_key (ta\<lparr>tr_raw_json := r1, tr_readable_json := d1\<rparr>)
     \<noteq> trends_cache_key (ta\<lparr>tr_raw_json := r2, tr_readable_json := d2\<rparr>)"
proof
  let ?ps = "[''q='' @ tr_q ta] @ key_part ''geo'' (tr_geo ta)
        @ key_part ''date'' (tr_date ta) @ key_part_int ''tz'' (tr_tz ta)
        @ key_part ''data_type'' (tr_data_type ta)
        @ key_part_int ''cat'' (tr_cat ta) @ key_part ''gprop'' (tr_gprop ta)"
  have k: "\<And>r d. trends_cache_key (ta\<lparr>tr_raw_json := r, tr_readable_json := d\<rparr>)
      = join ''&'' (?ps @ [format_tag r d])"
    by (simp add: trends_cache_key_def)
  assume "trends_cache_key (ta\<lparr>tr_raw_json := r1, tr_readable_json := d1\<rparr>)
     = trends_cache_key (ta\<lparr>tr_raw_json := r2, tr_readable_json := d2\<rparr>)"
  then have "join ''&'' (?ps @ [format_tag r1 d1]) = join ''&'' (?ps @ [format_tag r2 d2])"
    by (simp only: k)
  then have "format_tag r1 d1 = format_tag r2 d2"
    by (rule join_snoc_inject)
  with format_tag_distinct [OF assms] show False
    by simp
qed

lemma youtube_search_key_modes:
  assumes "selected_mode r1 d1 \<noteq> selected_mode r2 d2"
  shows "youtube_search_cache_key (ya\<lparr>yts_raw_json := r1, yts_readable_json := d1\<rparr>)
     \<noteq> youtube_search_cache_key (ya\<lparr>yts_raw_json := r2, yts_readable_json := d2\<rparr>)"
proof
  let ?ps = "[''search_query='' @ yts_search_query ya] @ key_part ''gl'' (yts_gl ya)
        @ key_part ''hl'' (yts_hl ya) @ key_part ''sp'' (yts_sp ya)"
  have k: "\<And>r d. youtube_search_cache_key (ya\<lparr>yts_raw_json := r, yts_readable_json := d\<rparr>)
      = join ''&'' (?ps @ [format_tag r d])"
    by (simp add: youtube_search_cache_key_def)
  assume "youtube_search_cache_key (ya\<lparr>yts_raw_json := r1, yts_readable_json := d1\<rparr>)
     = youtube_search_cache_key (ya\<lparr>yts_raw_json := r2, yts_readable_json := d2\<rparr>)"
  then have "join ''&'' (?ps @ [format_tag r1 d1]) = join ''&'' (?ps @ [format_tag r2 d2])"
    by (simp only: k)
  then have "format_tag r1 d1 = format_tag r2 d2"
    by (rule join_snoc_inject)
  with format_tag_distinct [OF assms] show False
    by simp
qed

lemma youtube_video_key_modes:
  assumes "selected_mode r1 d1 \<noteq> selected_mode r2 d2"
  shows "youtube_video_cache_key (va\<lparr>ytv_raw_json := r1, ytv_readable_json := d1\<rparr>)
     \<noteq> youtube_video_cache_key (va\<lparr>ytv_raw_json := r2, ytv_readable_json := d2\<rparr>)"
proof
  let ?ps = "[''v='' @ ytv_v va] @ key_part ''gl'' (ytv_gl va)
        @ key_part ''hl'' (ytv_hl va)
        @ key_part ''next_page_token'' (ytv_next_page_token va)"
  have k: "\<And>r d. youtube_video_cache_key (va\<lparr>ytv_raw_json := r, ytv_readable_json := d\<rparr>)
      = join ''&'' (?ps @ [format_tag r d])"
    by (simp add: youtube_video_cache_key_def)
  assume "youtube_video_cache_key (va\<lparr>ytv_raw_json := r1, ytv_readable_json := d1\<rparr>)
     = youtube_video_cache_key (va\<lparr>ytv_raw_json := r2, ytv_readable_json := d2\<rparr>)"
  then have "join ''&'' (?ps @ [format_tag r1 d1]) = join ''&'' (?ps @ [format_tag r2 d2])"
    by (simp only: k)
  then have "format_tag r1 d1 = format_tag r2 d2"
    by (rule join_snoc_inject)
  with format_tag_distinct [OF assms] show False
    by simp
qed

lemma search_params_flags:
  "search_params k (g\<lparr>gs_raw_json := r, gs_readable_json := d\<rparr>) = search_params k g"
  by (simp add: search_params_def Let_def)

lemma search_key_modes:
  "selected_mode r1 d1 \<noteq> selected_mode r2 d2 \<Longrightarrow>
   search_cache_key k (g\<lparr>gs_raw_json := r1, gs_readable_json := d1\<rparr>)
     \<noteq> search_cache_key k (g\<lparr>gs_raw_json := r2, gs_readable_json := d2\<rparr>)"
  by (auto simp: search_cache_key_def selected_mode_def search_params_flags split: if_splits)

text \<open>In Finance, Maps, News, Images, Trends, the two YouTube operations and Google Search
  two requests with the same search parameters and different selected modes have different
  keys.\<close>

lemma tagged_keys_separate_modes:
  "selected_mode r1 d1 \<noteq> selected_mode r2 d2 \<Longrightarrow>
     finance_cache_key (fa\<lparr>fin_raw_json := r1, fin_readable_json := d1\<rparr>)
       \<noteq> finance_cache_key (fa\<lparr>fin_raw_json := r2, fin_readable_json := d2\<rparr>)
     \<and> maps_cache_key (ma\<lparr>maps_raw_json := r1, maps_readable_json := d1\<rparr>)
       \<noteq> maps_cache_key (ma\<lparr>maps_raw_json := r2, maps_readable_json := d2\<rparr>)
     \<and> news_cache_key (na\<lparr>news_raw_json := r1, news_readable_json := d1\<rparr>)
       \<noteq> news_cache_key (na\<lparr>news_raw_json := r2, news_readable_json := d2\<rparr>)
     \<and> images_cache_key (ia\<lparr>img_raw_json := r1, img_readable_json := d1\<rparr>)
       \<noteq> images_cache_key (ia\<lparr>img_raw_json := r2, img_readable_json := d2\<rparr>)
     \<and> trends_cache_key (ta\<lparr>tr_raw_json := r1, tr_readable_json := d1\<rparr>)
       \<noteq> trends_cache_key (ta\<lparr>tr_raw_json := r2, tr_readable_json := d2\<rparr>)
     \<and> youtube_search_cache_key (ya\<lparr>yts_raw_json := r1, yts_readable_json := d1\<rparr>)
       \<noteq> youtube_search_cache_key (ya\<lparr>yts_raw_json := r2, yts_readable_json := d2\<rparr>)
     \<and> youtube_video_cache_key (va\<lparr>ytv_raw_json := r1, ytv_readable_json := d1\<rparr>)
       \<noteq> youtube_video_cache_key (va\<lparr>ytv_raw_json := r2, ytv_readable_json := d2\<rparr>)
     \<and> search_cache_key k (g\<lparr>gs_raw_json := r1, gs_readable_json := d1\<rparr>)
       \<noteq> search_cache_key k (g\<lparr>gs_raw_json := r2, gs_readable_json := d2\<rparr>)"
  using finance_key_modes [of r1 d1 r2 d2 fa]
    maps_key_modes [of r1 d1 r2 d2 ma]
    news_key_modes [of r1 d1 r2 d2 na]
    images_key_modes [of r1 d1 r2 d2 ia]
    trends_key_modes [of r1 d1 r2 d2 ta]
    youtube_search_key_modes [of r1 d1 r2 d2 ya]
    youtube_video_key_modes [of r1 d1 r2 d2 va]
    search_key_modes [of r1 d1 r2 d2 k g]
  by blast

text \<open>
  C4, evaluated on the Scholar adapter. The key is the serialised parameters with no mode
  tag, so a clean and a raw request for the same query have the same key. After a clean
  request has stored its payload, a raw request for the same query is a hit: it goes through
  the branch of the dispatch that returns the entry as it is, and gets the cleaned
  dictionary, not the body that the upstream sent and that a raw request gets on a fresh
  server. Nothing is sent upstream for it.
\<close>

theorem scholar_raw_request_gets_clean_payload:
  "scholar_cache_key ''secret'' (scholar_request ''coq'' False False)
     = scholar_cache_key ''secret'' (scholar_request ''coq'' True False)
   \<and> selected_mode (sch_raw_json (scholar_request ''coq'' False False))
         (sch_readable_json (scholar_request ''coq'' False False)) = Clean
   \<and> selected_mode (sch_raw_json (scholar_request ''coq'' True False))
         (sch_readable_json (scholar_request ''coq'' True False)) = Raw
   \<and> fst (google_scholar_search
             (stub_env (ok_response (JDict [(''search_metadata'', JDict [(''status'', JStr ''Success'')]),
                                            (''organic_results'', JList [])])) 0 0)
             (scholar_request ''coq'' False False) (new_scholar_server ''secret''))
       = Inr (JDict [(''search_metadata'', JDict [(''status'', JStr ''Success'')])])
   \<and> fst (google_scholar_search
             (stub_env (ok_response (JDict [(''search_metadata'', JDict [(''status'', JStr ''Success'')]),
                                            (''organic_results'', JList [])])) 0 0)
             (scholar_request ''coq'' True False)
             (snd (google_scholar_search
                (stub_env (ok_response (JDict [(''search_metadata'', JDict [(''status'', JStr ''Success'')]),
                                               (''organic_results'', JList [])])) 0 0)
                (scholar_request ''coq'' False False) (new_scholar_server ''secret''))))
       = Inr (JDict [(''search_metadata'', JDict [(''status'', JStr ''Success'')])])
   \<and> sch_requests (snd (google_scholar_search
             (stub_env (ok_response (JDict [(''search_metadata'', JDict [(''status'', JStr ''Success'')]),
                                            (''organic_results'', JList [])])) 0 0)
             (scholar_request ''coq'' True False)
             (snd (google_scholar_search
                (stub_env (ok_response (JDict [(''search_metadata'', JDict [(''status'', JStr ''Success'')]),
                                               (''organic_results'', JList [])])) 0 0)
                (scholar_request ''coq'' False False) (new_scholar_server ''secret'')))))
       = [(''https://serpapi.com/search'', scholar_params ''secret'' (scholar_request ''coq'' False False))]
   \<and> fst (google_scholar_search
             (stub_env (ok_response (JDict [(''search_metadata'', JDict [(''status'', JStr ''Success'')]),
                                            (''organic_results'', JList [])])) 0 0)
             (scholar_request ''coq'' True False) (new_scholar_server ''secret''))
       = Inr (JDict [(''search_metadata'', JDict [(''status'', JStr ''Success'')]),
                     (''organic_results'', JList [])])"
  by (simp add: google_scholar_search_def Let_def new_scholar_server_def scholar_try_def
      stub_env_def ok_response_def scholar_request_def truthy_bool_def scholar_hit_def
      scholar_cache_key_def scholar_params_def selected_mode_def is_kept_scholar_def
      set_str_def set_int_def)

text \<open>
  C5, evaluated on the Google Search adapter: the key is the JSON text of the upstream
  parameters, of which \<open>api_key\<close> is one, so the same request has different keys under two
  secrets and the secret can be read in the key.
\<close>

theorem search_cache_key_holds_api_key:
  "search_cache_key ''key-one'' (search_request ''isabelle'' False False)
     \<noteq> search_cache_key ''key-two'' (search_request ''isabelle'' False False)
   \<and> is_substring ''key-one'' (search_cache_key ''key-one'' (search_request ''isabelle'' False False))"
  by code_simp

section \<open>Expiry\<close>

lemma search_hit:
  "cache st (search_cache_key (api_key st) args) = Some c
    \<Longrightarrow> search env args st = (Inr (cs_response c), st)"
  by (simp add: search_def Let_def)

lemma finance_hit:
  "cache st (finance_cache_key args) = Some c \<Longrightarrow> now env - cs_timestamp c < 3600
    \<Longrightarrow> google_finance_search env args st = (Inr (cs_response c), st)"
  by (simp add: google_finance_search_def Let_def cache_ttl_def cache_get_def)

lemma finance_stale:
  "cache st (finance_cache_key args) = Some c \<Longrightarrow> \<not> now env - cs_timestamp c < 3600
    \<Longrightarrow> requests (snd (google_finance_search env args st))
        = requests st @ [(''https://serpapi.com/search'', finance_params (api_key st) args)]"
  by (auto simp: google_finance_search_def Let_def cache_ttl_def cache_get_def send_def
           store_def split: sum.splits)

text \<open>
  C2, evaluated on the Google Search adapter: an entry stamped at time 0 is returned at
  time 4000, past the 3600 seconds, and nothing is sent upstream.
\<close>

theorem search_returns_expired_entry:
  "search (stub_env server_error_response 4000 4001) (search_request ''isabelle'' False False)
     ((new_server ''secret'')\<lparr>cache :=
        [search_cache_key ''secret'' (search_request ''isabelle'' False False) \<mapsto>
           \<lparr>cs_query = search_cache_key ''secret'' (search_request ''isabelle'' False False),
            cs_response = JDict [(''organic_results'', JList [])], cs_timestamp = 0\<rparr>]\<rparr>)
   = (Inr (JDict [(''organic_results'', JList [])]),
      (new_server ''secret'')\<lparr>cache :=
        [search_cache_key ''secret'' (search_request ''isabelle'' False False) \<mapsto>
           \<lparr>cs_query = search_cache_key ''secret'' (search_request ''isabelle'' False False),
            cs_response = JDict [(''organic_results'', JList [])], cs_timestamp = 0\<rparr>]\<rparr>)
   \<and> \<not> (now (stub_env server_error_response 4000 4001 :: (GoogleSearchArgs, SearchResponseData) env)
          - 0 < cache_ttl)"
  by (simp add: search_def Let_def cache_ttl_def new_server_def stub_env_def)

section \<open>Readable mode and the error field\<close>

lemma finance_search_error_first:
  "(fr_error r = Some msg \<and> msg \<noteq> []
      \<longrightarrow> format_google_finance_results sections r = Inr (error_document msg))
   \<and> (sr_error s = Some msg \<and> msg \<noteq> []
       \<and> (sr_search_information s = None \<or> sr_search_information s = Some [])
      \<longrightarrow> format_search_results sections' s = Inr (error_document msg))"
  by (auto simp: format_google_finance_results_def format_search_results_def truthy_str_def
      error_document_def search_information_lines_def)

lemma maps_error_first:
  "mr_error m = Some msg \<and> msg \<noteq> []
     \<longrightarrow> format_google_maps_results sections m = Inr (error_document msg)"
  by (simp add: format_google_maps_results_def truthy_str_def error_document_def)

lemma images_error_first:
  "ir_error i = Some msg \<and> msg \<noteq> []
     \<longrightarrow> format_google_images_results sections i = Inr (images_error_document msg)"
  by (simp add: format_google_images_results_def truthy_str_def images_error_document_def)

lemma trends_error_first:
  "td_error t = Some msg \<and> msg \<noteq> []
     \<longrightarrow> format_google_trends_results sections t = Inr (trends_error_document msg)"
  by (simp add: format_google_trends_results_def truthy_str_def trends_error_document_def)

lemma news_error_section:
  "nr_error n = Some msg \<and> msg \<noteq> []
     \<and> \<not> truthy_str (nr_title n) \<and> \<not> truthy_list (nr_news_results n)
     \<and> \<not> truthy_list (nr_related_topics n)
     \<and> \<not> truthy_list (nr_related_publications n) \<and> \<not> truthy_list (nr_pagination n)
     \<longrightarrow> format_google_news_results sections n = Inr (news_error_document msg)"
  by (simp add: format_google_news_results_def Let_def titled_list_lines_def
      news_pagination_lines_def truthy_str_def news_error_document_def)

text \<open>
  C6 (as amended). For a response whose error is a non-empty string the Finance and the Maps
  renderer return the Error section (heading, message, empty line) and nothing else; so does
  the Google Search renderer when the response carries no search information. The Images
  and the Trends renderer return the title line of the adapter followed by the Error
  section and nothing else. The News renderer returns the Error section and nothing else
  when the response has no title, no news results, no related topics, no related
  publications and no pagination.
\<close>

theorem error_section_alone:
  "(fr_error r = Some msg \<and> msg \<noteq> []
      \<longrightarrow> format_google_finance_results sections r = Inr (error_document msg))
   \<and> (sr_error s = Some msg \<and> msg \<noteq> []
       \<and> (sr_search_information s = None \<or> sr_search_information s = Some [])
      \<longrightarrow> format_search_results sections' s = Inr (error_document msg))
   \<and> (mr_error m = Some msg \<and> msg \<noteq> []
      \<longrightarrow> format_google_maps_results msections m = Inr (error_document msg))
   \<and> (ir_error i = Some msg \<and> msg \<noteq> []
      \<longrightarrow> format_google_images_results isections i = Inr (images_error_document msg))
   \<and> (td_error t = Some msg \<and> msg \<noteq> []
      \<longrightarrow> format_google_trends_results tsections t = Inr (trends_error_document msg))
   \<and> (nr_error n = Some msg \<and> msg \<noteq> []
       \<and> \<not> truthy_str (nr_title n) \<and> \<not> truthy_list (nr_news_results n)
       \<and> \<not> truthy_list (nr_related_topics n)
       \<and> \<not> truthy_list (nr_related_publications n) \<and> \<not> truthy_list (nr_pagination n)
      \<longrightarrow> format_google_news_results nsections n = Inr (news_error_document msg))"
  using finance_search_error_first [of r msg sections s sections']
    maps_error_first [of m msg msections] images_error_first [of i msg isections]
    trends_error_first [of t msg tsections] news_error_section [of n msg nsections]
  by blast

theorem error_section_alone_witness:
  "(fr_error (finance_error_model [] ''SerpAPI request timed out'') = Some ''SerpAPI request timed out''
     \<and> ''SerpAPI request timed out'' \<noteq> [])
   \<and> format_google_finance_results no_sections
        (finance_error_model [] ''SerpAPI request timed out'')
       = Inr (''# Error'' @ [CHR 0x0A] @ ''SerpAPI request timed out'' @ [CHR 0x0A])
   \<and> (sr_error (search_response_with None (Some ''SerpAPI request timed out''))
         = Some ''SerpAPI request timed out''
       \<and> sr_search_information (search_response_with None (Some ''SerpAPI request timed out'')) = None)
   \<and> format_search_results no_sections
        (search_response_with None (Some ''SerpAPI request timed out''))
       = Inr (''# Error'' @ [CHR 0x0A] @ ''SerpAPI request timed out'' @ [CHR 0x0A])
   \<and> mr_error (maps_error_model [] ''SerpAPI request timed out'') = Some ''SerpAPI request timed out''
   \<and> format_google_maps_results no_sections (maps_error_model [] ''SerpAPI request timed out'')
       = Inr (''# Error'' @ [CHR 0x0A] @ ''SerpAPI request timed out'' @ [CHR 0x0A])
   \<and> ir_error (images_error_model [] ''SerpAPI request timed out'')
       = Some ''SerpAPI request timed out''
   \<and> format_google_images_results no_sections
        (images_error_model [] ''SerpAPI request timed out'')
       = Inr (''# Google Images Results'' @ [CHR 0x0A] @ ''## Error'' @ [CHR 0x0A]
              @ ''SerpAPI request timed out'' @ [CHR 0x0A])
   \<and> td_error (trends_error_model [] ''SerpAPI request timed out'')
       = Some ''SerpAPI request timed out''
   \<and> format_google_trends_results no_sections
        (trends_error_model [] ''SerpAPI request timed out'')
       = Inr (''# Google Trends Results'' @ [CHR 0x0A] @ ''## Error'' @ [CHR 0x0A]
              @ ''SerpAPI request timed out'' @ [CHR 0x0A])
   \<and> (nr_error (news_error_model [] ''SerpAPI request timed out'')
         = Some ''SerpAPI request timed out''
       \<and> nr_title (news_error_model [] ''SerpAPI request timed out'') = None
       \<and> nr_news_results (news_error_model [] ''SerpAPI request timed out'') = None
       \<and> nr_related_topics (news_error_model [] ''SerpAPI request timed out'') = None
       \<and> nr_related_publications (news_error_model [] ''SerpAPI request timed out'') = None
       \<and> nr_pagination (news_error_model [] ''SerpAPI request timed out'') = None)
   \<and> format_google_news_results no_sections (news_error_model [] ''SerpAPI request timed out'')
       = Inr (''## Error'' @ [CHR 0x0A] @ ''SerpAPI request timed out'' @ [CHR 0x0A])"
  using error_section_alone
    [where r = "finance_error_model [] ''SerpAPI request timed out''"
       and msg = "''SerpAPI request timed out''" and sections = no_sections
       and s = "search_response_with None (Some ''SerpAPI request timed out'')"
       and sections' = no_sections
       and m = "maps_error_model [] ''SerpAPI request timed out''" and msections = no_sections
       and i = "images_error_model [] ''SerpAPI request timed out''" and isections = no_sections
       and t = "trends_error_model [] ''SerpAPI request timed out''" and tsections = no_sections
       and n = "news_error_model [] ''SerpAPI request timed out''" and nsections = no_sections]
  by (simp add: finance_error_model_def search_response_with_def error_document_def
      maps_error_model_def images_error_model_def trends_error_model_def news_error_model_def
      truthy_str_def truthy_list_def images_error_document_def trends_error_document_def
      news_error_document_def)

text \<open>
  C6 as stated fails. The Google Search renderer writes the search information before it
  tests the error, so the document has two sections; and every renderer tests the truth
  value of the error, so an error that is the empty string is rendered as no error at all.
  The News renderer goes on after the Error section, here with the related topics. The
  renderers of the YouTube adapter and of Scholar never read the error: the document of a
  response that carries nothing but an error is empty in the one and the title line in the
  other.
\<close>

theorem error_section_counterexample:
  "format_search_results no_sections
     (search_response_with (Some [(''total_results'', JInt 5)]) (Some ''Invalid API key''))
     = Inr (''# Search Information'' @ [CHR 0x0A] @ ''Total Results: 5'' @ [CHR 0x0A, CHR 0x0A]
            @ ''# Error'' @ [CHR 0x0A] @ ''Invalid API key'' @ [CHR 0x0A])
   \<and> format_search_results no_sections
     (search_response_with (Some [(''total_results'', JInt 5)]) (Some ''Invalid API key''))
     \<noteq> Inr (error_document ''Invalid API key'')
   \<and> fr_error (finance_error_model [] []) = Some []
   \<and> format_google_finance_results no_sections (finance_error_model [] []) = Inr []
   \<and> format_google_finance_results no_sections (finance_error_model [] [])
     \<noteq> Inr (error_document [])
   \<and> format_google_news_results no_sections
       ((news_error_model [] ''Invalid API key'')
          \<lparr>nr_related_topics := Some [[(''title'', JStr ''Proof assistants'')]]\<rparr>)
     = Inr (''## Error'' @ [CHR 0x0A] @ ''Invalid API key'' @ [CHR 0x0A, CHR 0x0A]
            @ ''## Related Topics'' @ [CHR 0x0A, CHR 0x0A] @ ''- Proof assistants'' @ [CHR 0x0A])
   \<and> ysd_error (youtube_search_error_model [] ''Invalid API key'') = Some ''Invalid API key''
   \<and> format_youtube_search_results no_sections
       (youtube_search_error_model [] ''Invalid API key'') = Inr []
   \<and> yvd_error (youtube_video_error_model [] ''Invalid API key'') = Some ''Invalid API key''
   \<and> format_youtube_video_results no_sections
       (youtube_video_error_model [] ''Invalid API key'') = Inr []
   \<and> format_google_scholar_results no_sections
       \<lparr>sd_search_metadata = [], sd_search_parameters = [], sd_search_information = None,
        sd_organic_results = None, sd_pagination = None, sd_serpapi_pagination = None,
        sd_related_searches = None, sd_filters = None, sd_error = Some ''Invalid API key''\<rparr>
     = Inr (''# Google Scholar Search Results'' @ [CHR 0x0A])"
  by (simp add: format_search_results_def search_information_lines_def search_response_with_def
      truthy_str_def error_document_def format_google_finance_results_def finance_error_model_def
      no_sections_def str_int_def str_nat.simps format_google_news_results_def Let_def
      news_error_model_def truthy_list_def titled_list_lines_def news_pagination_lines_def
      format_youtube_search_results_def youtube_search_error_model_def
      format_youtube_video_results_def youtube_video_error_model_def
      format_google_scholar_results_def)

section \<open>Upstream failures\<close>


































section \<open>A body that does not fit the readable model\<close>



















end
